theory Spec2Isabelle
  imports Main
begin

section \<open>Data model (internal/models)\<close>

text \<open>
  Instants of \<open>time.Time\<close> are integers on one time line; \<open>a.Before(b)\<close> is \<open>a < b\<close>.
  The result of \<open>time.Now()\<close> is passed to every operation that reads the clock.
  Primary keys (\<open>uint\<close>) are natural numbers.

  The four values of the \<open>status\<close> column (its check constraint, and the \<open>oneof\<close>
  binding of the status request) are the constructors of \<open>status\<close>.

  The bookkeeping columns \<open>CreatedAt\<close>, \<open>UpdatedAt\<close>, \<open>DeletedAt\<close>, which the ORM
  maintains by itself, and the relation fields that only \<open>Preload\<close> fills are left out
  of the records; no operation modelled here reads them, apart from
  \<open>AvailabilitySlot.Appointment\<close>, which is modelled below.
\<close>

type_synonym instant = int

datatype status = Pending | Confirmed | Cancelled | Completed

datatype error = Err string | UniqueViolation string

record user =
  user_id :: nat
  role :: string

text \<open>\<open>models.Appointment\<close>: there is no start or end time among its fields.\<close>

record appointment =
  app_id :: nat
  patient_id :: nat
  doctor_id :: nat
  slot_id :: "nat option"
  status :: status
  app_notes :: string

text \<open>
  A row of the table \<open>appointments\<close>. \<open>FindByDoctorAndTimeRange\<close> reads two columns
  \<open>start_time\<close> and \<open>end_time\<close> of that table which \<open>models.Appointment\<close> does not
  map. A row therefore carries the mapped fields (\<open>entity\<close>) and these two columns,
  which are SQL NULL (\<open>None\<close>) unless something other than the ORM has written them.
\<close>

record appointment_row =
  entity :: appointment
  start_time :: "instant option"
  end_time :: "instant option"

text \<open>
  \<open>models.AvailabilitySlot\<close>. Its relation field \<open>Appointment *Appointment\<close> is not a
  column: it is nil in a value that was loaded without \<open>Preload("Appointment")\<close>.
\<close>

record AvailabilitySlot =
  slot_key :: nat
  slot_DoctorID :: nat
  slot_StartTime :: instant
  slot_EndTime :: instant
  slot_Status :: string
  slot_Appointment :: "appointment option"

record Message =
  msg_id :: nat
  msg_AppointmentID :: nat
  msg_SenderUserID :: nat
  msg_Body :: string
  msg_AttachmentURL :: "string option"
  msg_ReadAt :: "instant option"

record VideoSession =
  vs_id :: nat
  vs_AppointmentID :: nat
  vs_RoomID :: string
  vs_StartedAt :: "instant option"
  vs_EndedAt :: "instant option"

record Prescription =
  presc_id :: nat
  presc_AppointmentID :: nat
  presc_ItemsJSON :: string
  presc_Notes :: string
  presc_CreatedByDoctorID :: nat

text \<open>
  The store: one list per table, in order of insertion (so \<open>created_at\<close> ascending).
  A soft-deleted row is invisible to every query of the repositories, so deleting
  removes the row from the list. Reads and writes of the store itself do not fail.
\<close>

record db =
  users :: "user list"
  appointments :: "appointment_row list"
  slots :: "AvailabilitySlot list"
  messages :: "Message list"
  video_sessions :: "VideoSession list"
  prescriptions :: "Prescription list"

section \<open>Repositories\<close>

text \<open>The next value of a table's key sequence: larger than every key in use.\<close>

definition fresh_id :: "nat list \<Rightarrow> nat" where
  "fresh_id ids = Suc (foldr max ids 0)"

definition user_FindByID :: "db \<Rightarrow> nat \<Rightarrow> user option" where
  "user_FindByID d i = find (\<lambda>u. user_id u = i) (users d)"

definition appointment_FindByID :: "db \<Rightarrow> nat \<Rightarrow> appointment option" where
  "appointment_FindByID d i =
     map_option entity (find (\<lambda>r. app_id (entity r) = i) (appointments d))"

text \<open>
  The \<open>WHERE\<close> clause of \<open>FindByDoctorAndTimeRange\<close>, with the parameters in the order
  the call binds them: \<open>(start_time <= s AND end_time >= s) OR (start_time <= e AND
  end_time >= e) OR (start_time >= s AND end_time <= e)\<close>. A comparison with NULL is
  not true, so a row with a NULL column matches no clause.
\<close>

definition time_range_matches :: "appointment_row \<Rightarrow> instant \<Rightarrow> instant \<Rightarrow> bool" where
  "time_range_matches r s e =
     (case (start_time r, end_time r) of
        (Some rs, Some re) \<Rightarrow>
          (rs \<le> s \<and> re \<ge> s) \<or> (rs \<le> e \<and> re \<ge> e) \<or> (rs \<ge> s \<and> re \<le> e)
      | _ \<Rightarrow> False)"

definition FindByDoctorAndTimeRange ::
  "db \<Rightarrow> nat \<Rightarrow> instant \<Rightarrow> instant \<Rightarrow> appointment_row list" where
  "FindByDoctorAndTimeRange d doctorID startTime endTime =
     filter (\<lambda>r. doctor_id (entity r) = doctorID \<and> time_range_matches r startTime endTime)
       (appointments d)"

text \<open>
  \<open>createIndexes\<close> declares the partial unique index \<open>uniq_slot_confirmed\<close> on
  \<open>appointments(slot_id) WHERE status IN ('pending','confirmed')\<close>. A write is
  rejected when it would leave two such rows with the same non-NULL \<open>slot_id\<close>.
\<close>

definition active :: "status \<Rightarrow> bool" where
  "active st = (st = Pending \<or> st = Confirmed)"

definition uniq_slot_confirmed_violated :: "appointment_row list \<Rightarrow> appointment \<Rightarrow> bool" where
  "uniq_slot_confirmed_violated rows a =
     (active (status a) \<and>
      (case slot_id a of
         None \<Rightarrow> False
       | Some s \<Rightarrow>
           list_ex (\<lambda>r. app_id (entity r) \<noteq> app_id a \<and> slot_id (entity r) = Some s
                        \<and> active (status (entity r))) rows))"

text \<open>
  \<open>appointmentRepository.Create\<close>: the row gets the next key; the ORM writes the mapped
  fields only, so both time columns of the new row are NULL.
\<close>

definition appointment_Create :: "db \<Rightarrow> appointment \<Rightarrow> error + (appointment \<times> db)" where
  "appointment_Create d a =
     (let a' = a\<lparr>app_id := fresh_id (map (\<lambda>r. app_id (entity r)) (appointments d))\<rparr> in
      if uniq_slot_confirmed_violated (appointments d) a'
      then Inl (UniqueViolation ''uniq_slot_confirmed'')
      else Inr (a', d\<lparr>appointments := appointments d @
                        [\<lparr>entity = a', start_time = None, end_time = None\<rparr>]\<rparr>))"

text \<open>\<open>appointmentRepository.Update\<close> (\<open>Save\<close>): rewrites the mapped fields of the row
  with the same key.\<close>

definition appointment_Update :: "db \<Rightarrow> appointment \<Rightarrow> error + db" where
  "appointment_Update d a =
     (if uniq_slot_confirmed_violated (appointments d) a
      then Inl (UniqueViolation ''uniq_slot_confirmed'')
      else Inr (d\<lparr>appointments :=
                    map (\<lambda>r. if app_id (entity r) = app_id a then r\<lparr>entity := a\<rparr> else r)
                      (appointments d)\<rparr>))"

section \<open>AppointmentService\<close>

record CreateAppointmentRequest =
  req_PatientID :: nat
  req_DoctorID :: nat
  req_SlotID :: "nat option"
  req_Notes :: string
  req_StartTime :: instant
  req_EndTime :: instant

record UpdateAppointmentStatusRequest =
  upd_AppointmentID :: nat
  upd_DoctorID :: nat
  upd_Status :: status
  upd_Notes :: string

text \<open>
  Every operation returns its result together with the store it leaves; on every error
  path the store is the one it was given.
\<close>

definition CreateAppointment ::
  "instant \<Rightarrow> db \<Rightarrow> CreateAppointmentRequest \<Rightarrow> (error + appointment) \<times> db" where
  "CreateAppointment now d req =
     (case user_FindByID d (req_DoctorID req) of
        None \<Rightarrow> (Inl (Err ''doctor not found''), d)
      | Some doctor \<Rightarrow>
     if role doctor \<noteq> ''doctor'' then (Inl (Err ''doctor not found''), d) else
     (case user_FindByID d (req_PatientID req) of
        None \<Rightarrow> (Inl (Err ''patient not found''), d)
      | Some patient \<Rightarrow>
     if role patient \<noteq> ''patient'' then (Inl (Err ''patient not found''), d) else
     if req_StartTime req < now then (Inl (Err ''start time cannot be in the past''), d) else
     if req_EndTime req < req_StartTime req
       then (Inl (Err ''end time must be after start time''), d) else
     if list_ex (\<lambda>existing. status (entity existing) \<noteq> Cancelled)
          (FindByDoctorAndTimeRange d (req_DoctorID req) (req_StartTime req) (req_EndTime req))
       then (Inl (Err ''time slot is already booked''), d) else
     (case appointment_Create d
             \<lparr>app_id = 0, patient_id = req_PatientID req, doctor_id = req_DoctorID req,
              slot_id = req_SlotID req, status = Pending, app_notes = req_Notes req\<rparr> of
        Inl e \<Rightarrow> (Inl e, d)
      | Inr (a, d') \<Rightarrow> (Inr a, d'))))"

definition UpdateAppointmentStatus ::
  "db \<Rightarrow> UpdateAppointmentStatusRequest \<Rightarrow> (error + appointment) \<times> db" where
  "UpdateAppointmentStatus d req =
     (case appointment_FindByID d (upd_AppointmentID req) of
        None \<Rightarrow> (Inl (Err ''appointment not found''), d)
      | Some a \<Rightarrow>
     if doctor_id a \<noteq> upd_DoctorID req
       then (Inl (Err ''unauthorized to update this appointment''), d) else
     (let a' = a\<lparr>status := upd_Status req,
                  app_notes := (if upd_Notes req \<noteq> [] then upd_Notes req else app_notes a)\<rparr> in
      case appointment_Update d a' of
        Inl e \<Rightarrow> (Inl e, d)
      | Inr d' \<Rightarrow> (Inr a', d')))"

definition CancelAppointment :: "db \<Rightarrow> nat \<Rightarrow> nat \<Rightarrow> (error + unit) \<times> db" where
  "CancelAppointment d appointmentID userID =
     (case appointment_FindByID d appointmentID of
        None \<Rightarrow> (Inl (Err ''appointment not found''), d)
      | Some a \<Rightarrow>
     if patient_id a \<noteq> userID \<and> doctor_id a \<noteq> userID
       then (Inl (Err ''unauthorized to cancel this appointment''), d) else
     if status a = Completed \<or> status a = Cancelled
       then (Inl (Err ''appointment cannot be cancelled''), d) else
     (case appointment_Update d (a\<lparr>status := Cancelled\<rparr>) of
        Inl e \<Rightarrow> (Inl e, d)
      | Inr d' \<Rightarrow> (Inr (), d')))"

section \<open>SlotService\<close>

text \<open>
  \<open>slotRepository.FindByID\<close> is \<open>db.First(&slot, id)\<close>, with no \<open>Preload\<close>: it reads
  the columns of the row, and the relation field of the value it returns is nil. A
  missing row is the ORM's error \<open>record not found\<close>, which \<open>DeleteSlot\<close> returns as it is.
\<close>

definition slot_FindByID :: "db \<Rightarrow> nat \<Rightarrow> AvailabilitySlot option" where
  "slot_FindByID d i =
     map_option (\<lambda>s. s\<lparr>slot_Appointment := None\<rparr>) (find (\<lambda>s. slot_key s = i) (slots d))"

definition slot_Delete :: "db \<Rightarrow> nat \<Rightarrow> db" where
  "slot_Delete d i = d\<lparr>slots := filter (\<lambda>s. slot_key s \<noteq> i) (slots d)\<rparr>"

definition DeleteSlot :: "db \<Rightarrow> nat \<Rightarrow> nat \<Rightarrow> (error + unit) \<times> db" where
  "DeleteSlot d slotID doctorID =
     (case slot_FindByID d slotID of
        None \<Rightarrow> (Inl (Err ''record not found''), d)
      | Some slot \<Rightarrow>
     if slot_DoctorID slot \<noteq> doctorID
       then (Inl (Err ''unauthorized to delete this slot''), d) else
     if slot_Appointment slot \<noteq> None
       then (Inl (Err ''cannot delete slot with existing appointment''), d) else
     (Inr (), slot_Delete d slotID))"

section \<open>VideoService\<close>

definition videoSession_FindByID :: "db \<Rightarrow> nat \<Rightarrow> VideoSession option" where
  "videoSession_FindByID d i = find (\<lambda>v. vs_id v = i) (video_sessions d)"

text \<open>\<open>FindActiveByAppointment\<close>: \<open>appointment_id = ? AND started_at IS NOT NULL AND
  ended_at IS NULL\<close>, newest first, the first row.\<close>

definition FindActiveByAppointment :: "db \<Rightarrow> nat \<Rightarrow> VideoSession option" where
  "FindActiveByAppointment d appointmentID =
     (case rev (filter (\<lambda>v. vs_AppointmentID v = appointmentID \<and> vs_StartedAt v \<noteq> None
                             \<and> vs_EndedAt v = None) (video_sessions d)) of
        [] \<Rightarrow> None
      | v # _ \<Rightarrow> Some v)"

definition videoSession_FindByAppointmentID :: "db \<Rightarrow> nat \<Rightarrow> VideoSession list" where
  "videoSession_FindByAppointmentID d appointmentID =
     rev (filter (\<lambda>v. vs_AppointmentID v = appointmentID) (video_sessions d))"

definition videoSession_Create :: "db \<Rightarrow> VideoSession \<Rightarrow> VideoSession \<times> db" where
  "videoSession_Create d v =
     (let v' = v\<lparr>vs_id := fresh_id (map vs_id (video_sessions d))\<rparr> in
      (v', d\<lparr>video_sessions := video_sessions d @ [v']\<rparr>))"

definition UpdateStartedAt :: "db \<Rightarrow> nat \<Rightarrow> instant option \<Rightarrow> db" where
  "UpdateStartedAt d sessionID startedAt =
     d\<lparr>video_sessions :=
         map (\<lambda>v. if vs_id v = sessionID then v\<lparr>vs_StartedAt := startedAt\<rparr> else v)
           (video_sessions d)\<rparr>"

definition UpdateEndedAt :: "db \<Rightarrow> nat \<Rightarrow> instant option \<Rightarrow> db" where
  "UpdateEndedAt d sessionID endedAt =
     d\<lparr>video_sessions :=
         map (\<lambda>v. if vs_id v = sessionID then v\<lparr>vs_EndedAt := endedAt\<rparr> else v)
           (video_sessions d)\<rparr>"

record CreateVideoSessionRequest =
  cvs_AppointmentID :: nat
  cvs_CreatedByUserID :: nat
  cvs_RoomName :: string
  cvs_MaxParticipants :: int
  cvs_RecordingEnabled :: bool

record SignalingInfo =
  sig_RoomID :: string
  sig_ICEServers :: "string list"
  sig_RoomToken :: string
  sig_ExpiresAt :: instant

text \<open>
  What the services take from outside the store: the clock, the outcome of
  \<open>generateRoomID\<close> and of \<open>generateRoomToken\<close> (random bytes, which may fail to be
  read), the outcome of storing an uploaded file (its URL), the length of one hour on the
  time line, and \<open>json.Marshal\<close> of an item list (\<open>None\<close> when it fails).
\<close>

record PrescriptionItem =
  MedicationName :: string
  Dosage :: string
  Frequency :: string
  Duration :: string
  Instructions :: string

record env =
  env_now :: instant
  env_hour :: instant
  env_generateRoomID :: "error + string"
  env_generateRoomToken :: "string \<Rightarrow> nat \<Rightarrow> error + string"
  env_storeFile :: "error + string"
  env_Marshal :: "PrescriptionItem list \<Rightarrow> string option"

definition CreateVideoSession ::
  "env \<Rightarrow> db \<Rightarrow> CreateVideoSessionRequest \<Rightarrow> nat \<Rightarrow> (error + VideoSession) \<times> db" where
  "CreateVideoSession ev d req userID =
     (case appointment_FindByID d (cvs_AppointmentID req) of
        None \<Rightarrow> (Inl (Err ''appointment not found''), d)
      | Some a \<Rightarrow>
     if patient_id a \<noteq> userID \<and> doctor_id a \<noteq> userID
       then (Inl (Err ''unauthorized to create video session for this appointment''), d) else
     if (case FindActiveByAppointment d (cvs_AppointmentID req) of
           None \<Rightarrow> False
         | Some existingSession \<Rightarrow>
             vs_StartedAt existingSession \<noteq> None \<and> vs_EndedAt existingSession = None)
       then (Inl (Err ''active video session already exists for this appointment''), d) else
     (case env_generateRoomID ev of
        Inl e \<Rightarrow> (Inl e, d)
      | Inr roomID \<Rightarrow>
          (case videoSession_Create d
                  \<lparr>vs_id = 0, vs_AppointmentID = cvs_AppointmentID req, vs_RoomID = roomID,
                   vs_StartedAt = None, vs_EndedAt = None\<rparr> of
             (v, d') \<Rightarrow> (Inr v, d'))))"

definition GetVideoSession :: "db \<Rightarrow> nat \<Rightarrow> error + VideoSession" where
  "GetVideoSession d sessionID =
     (case videoSession_FindByID d sessionID of
        None \<Rightarrow> Inl (Err ''video session not found'')
      | Some session \<Rightarrow> Inr session)"

definition ValidateSessionAccess :: "db \<Rightarrow> nat \<Rightarrow> nat \<Rightarrow> error + unit" where
  "ValidateSessionAccess d sessionID userID =
     (case videoSession_FindByID d sessionID of
        None \<Rightarrow> Inl (Err ''video session not found'')
      | Some session \<Rightarrow>
     (case appointment_FindByID d (vs_AppointmentID session) of
        None \<Rightarrow> Inl (Err ''appointment not found'')
      | Some a \<Rightarrow>
     if patient_id a \<noteq> userID \<and> doctor_id a \<noteq> userID
       then Inl (Err ''unauthorized to access this video session'')
       else Inr ()))"

definition StartVideoSession :: "env \<Rightarrow> db \<Rightarrow> nat \<Rightarrow> nat \<Rightarrow> (error + unit) \<times> db" where
  "StartVideoSession ev d sessionID userID =
     (case ValidateSessionAccess d sessionID userID of
        Inl e \<Rightarrow> (Inl e, d)
      | Inr _ \<Rightarrow> (Inr (), UpdateStartedAt d sessionID (Some (env_now ev))))"

definition EndVideoSession :: "env \<Rightarrow> db \<Rightarrow> nat \<Rightarrow> nat \<Rightarrow> (error + unit) \<times> db" where
  "EndVideoSession ev d sessionID userID =
     (case ValidateSessionAccess d sessionID userID of
        Inl e \<Rightarrow> (Inl e, d)
      | Inr _ \<Rightarrow> (Inr (), UpdateEndedAt d sessionID (Some (env_now ev))))"

definition GetVideoSessionsByAppointment ::
  "db \<Rightarrow> nat \<Rightarrow> nat \<Rightarrow> error + VideoSession list" where
  "GetVideoSessionsByAppointment d appointmentID userID =
     (case appointment_FindByID d appointmentID of
        None \<Rightarrow> Inl (Err ''appointment not found'')
      | Some a \<Rightarrow>
     if patient_id a \<noteq> userID \<and> doctor_id a \<noteq> userID
       then Inl (Err ''unauthorized to view video sessions for this appointment'')
       else Inr (videoSession_FindByAppointmentID d appointmentID))"

definition GetSignalingInfo :: "env \<Rightarrow> db \<Rightarrow> nat \<Rightarrow> nat \<Rightarrow> error + SignalingInfo" where
  "GetSignalingInfo ev d sessionID userID =
     (case ValidateSessionAccess d sessionID userID of
        Inl e \<Rightarrow> Inl e
      | Inr _ \<Rightarrow>
     (case videoSession_FindByID d sessionID of
        None \<Rightarrow> Inl (Err ''video session not found'')
      | Some session \<Rightarrow>
     (case env_generateRoomToken ev (vs_RoomID session) userID of
        Inl e \<Rightarrow> Inl e
      | Inr roomToken \<Rightarrow>
          Inr \<lparr>sig_RoomID = vs_RoomID session,
               sig_ICEServers = [''stun:stun.l.google.com:19302'',
                                 ''stun:stun1.l.google.com:19302''],
               sig_RoomToken = roomToken,
               sig_ExpiresAt = env_now ev + 1 * env_hour ev\<rparr>)))"

definition GetWebRTCOffer :: "db \<Rightarrow> nat \<Rightarrow> nat \<Rightarrow> error + string" where
  "GetWebRTCOffer d sessionID userID =
     (case ValidateSessionAccess d sessionID userID of
        Inl e \<Rightarrow> Inl e
      | Inr _ \<Rightarrow> Inr ''webrtc_offer_data'')"

definition SetWebRTCAnswer :: "db \<Rightarrow> nat \<Rightarrow> nat \<Rightarrow> string \<Rightarrow> error + unit" where
  "SetWebRTCAnswer d sessionID userID answer =
     (case ValidateSessionAccess d sessionID userID of
        Inl e \<Rightarrow> Inl e
      | Inr _ \<Rightarrow> Inr ())"

text \<open>
  The HTTP handler \<open>VideoHandler.GetVideoSession\<close>: it calls the service's
  \<open>GetVideoSession\<close> (404 on error), then \<open>ValidateSessionAccess\<close> (403 on error), and
  answers 200 with the session. \<open>JoinVideoSession\<close> starts the same way and then asks for
  the signaling information (500 on error).
\<close>

definition handler_GetVideoSession :: "db \<Rightarrow> nat \<Rightarrow> nat \<Rightarrow> nat \<times> (error + VideoSession)" where
  "handler_GetVideoSession d sessionID userID =
     (case GetVideoSession d sessionID of
        Inl e \<Rightarrow> (404, Inl e)
      | Inr session \<Rightarrow>
     (case ValidateSessionAccess d sessionID userID of
        Inl e \<Rightarrow> (403, Inl e)
      | Inr _ \<Rightarrow> (200, Inr session)))"

definition handler_JoinVideoSession ::
  "env \<Rightarrow> db \<Rightarrow> nat \<Rightarrow> nat \<Rightarrow> nat \<times> (error + VideoSession \<times> SignalingInfo)" where
  "handler_JoinVideoSession ev d sessionID userID =
     (case GetVideoSession d sessionID of
        Inl e \<Rightarrow> (404, Inl e)
      | Inr session \<Rightarrow>
     (case ValidateSessionAccess d sessionID userID of
        Inl e \<Rightarrow> (403, Inl e)
      | Inr _ \<Rightarrow>
     (case GetSignalingInfo ev d sessionID userID of
        Inl e \<Rightarrow> (500, Inl e)
      | Inr signalingInfo \<Rightarrow> (200, Inr (session, signalingInfo)))))"

section \<open>ChatService\<close>

record SendMessageRequest =
  sm_AppointmentID :: nat
  sm_SenderUserID :: nat
  sm_Body :: string
  sm_AttachmentURL :: "string option"

definition message_Create :: "db \<Rightarrow> Message \<Rightarrow> Message \<times> db" where
  "message_Create d m =
     (let m' = m\<lparr>msg_id := fresh_id (map msg_id (messages d))\<rparr> in
      (m', d\<lparr>messages := messages d @ [m']\<rparr>))"

text \<open>\<open>FindByAppointmentID\<close>: newest first, \<open>offset\<close> rows skipped, at most \<open>limit\<close>
  rows (the handler passes \<open>0 < limit \<le> 100\<close> and \<open>0 \<le> offset\<close>).\<close>

definition message_FindByAppointmentID :: "db \<Rightarrow> nat \<Rightarrow> nat \<Rightarrow> nat \<Rightarrow> Message list" where
  "message_FindByAppointmentID d appointmentID limit offset =
     take limit (drop offset (rev (filter (\<lambda>m. msg_AppointmentID m = appointmentID) (messages d))))"

definition unread_for :: "nat \<Rightarrow> nat \<Rightarrow> Message \<Rightarrow> bool" where
  "unread_for appointmentID userID m =
     (msg_AppointmentID m = appointmentID \<and> msg_SenderUserID m \<noteq> userID \<and> msg_ReadAt m = None)"

definition MarkAsRead :: "db \<Rightarrow> instant \<Rightarrow> nat \<Rightarrow> nat \<Rightarrow> db" where
  "MarkAsRead d now appointmentID userID =
     d\<lparr>messages :=
         map (\<lambda>m. if unread_for appointmentID userID m then m\<lparr>msg_ReadAt := Some now\<rparr> else m)
           (messages d)\<rparr>"

definition message_GetUnreadCount :: "db \<Rightarrow> nat \<Rightarrow> nat \<Rightarrow> nat" where
  "message_GetUnreadCount d appointmentID userID =
     length (filter (unread_for appointmentID userID) (messages d))"

definition SendMessage :: "db \<Rightarrow> SendMessageRequest \<Rightarrow> (error + Message) \<times> db" where
  "SendMessage d req =
     (case appointment_FindByID d (sm_AppointmentID req) of
        None \<Rightarrow> (Inl (Err ''appointment not found''), d)
      | Some a \<Rightarrow>
     if patient_id a \<noteq> sm_SenderUserID req \<and> doctor_id a \<noteq> sm_SenderUserID req
       then (Inl (Err ''unauthorized to send message to this appointment''), d) else
     (case message_Create d
             \<lparr>msg_id = 0, msg_AppointmentID = sm_AppointmentID req,
              msg_SenderUserID = sm_SenderUserID req, msg_Body = sm_Body req,
              msg_AttachmentURL = sm_AttachmentURL req, msg_ReadAt = None\<rparr> of
        (m, d') \<Rightarrow> (Inr m, d')))"

definition GetMessages :: "db \<Rightarrow> nat \<Rightarrow> nat \<Rightarrow> nat \<Rightarrow> nat \<Rightarrow> error + Message list" where
  "GetMessages d appointmentID userID limit offset =
     (case appointment_FindByID d appointmentID of
        None \<Rightarrow> Inl (Err ''appointment not found'')
      | Some a \<Rightarrow>
     if patient_id a \<noteq> userID \<and> doctor_id a \<noteq> userID
       then Inl (Err ''unauthorized to view messages for this appointment'')
       else Inr (message_FindByAppointmentID d appointmentID limit offset))"

text \<open>\<open>UploadAttachment\<close>: after the two checks the file is written outside the store;
  the outcome of that part (an error, or the URL) is \<open>env_storeFile\<close>.\<close>

definition UploadAttachment :: "env \<Rightarrow> db \<Rightarrow> nat \<Rightarrow> nat \<Rightarrow> error + string" where
  "UploadAttachment ev d appointmentID userID =
     (case appointment_FindByID d appointmentID of
        None \<Rightarrow> Inl (Err ''appointment not found'')
      | Some a \<Rightarrow>
     if patient_id a \<noteq> userID \<and> doctor_id a \<noteq> userID
       then Inl (Err ''unauthorized to upload attachment for this appointment'')
       else env_storeFile ev)"

definition MarkMessagesAsRead :: "env \<Rightarrow> db \<Rightarrow> nat \<Rightarrow> nat \<Rightarrow> (error + unit) \<times> db" where
  "MarkMessagesAsRead ev d appointmentID userID =
     (case appointment_FindByID d appointmentID of
        None \<Rightarrow> (Inl (Err ''appointment not found''), d)
      | Some a \<Rightarrow>
     if patient_id a \<noteq> userID \<and> doctor_id a \<noteq> userID
       then (Inl (Err ''unauthorized to mark messages as read for this appointment''), d)
       else (Inr (), MarkAsRead d (env_now ev) appointmentID userID))"

definition GetUnreadCount :: "db \<Rightarrow> nat \<Rightarrow> nat \<Rightarrow> error + nat" where
  "GetUnreadCount d appointmentID userID =
     (case appointment_FindByID d appointmentID of
        None \<Rightarrow> Inl (Err ''appointment not found'')
      | Some a \<Rightarrow>
     if patient_id a \<noteq> userID \<and> doctor_id a \<noteq> userID
       then Inl (Err ''unauthorized to get unread count for this appointment'')
       else Inr (message_GetUnreadCount d appointmentID userID))"

section \<open>PrescriptionService\<close>

record CreatePrescriptionRequest =
  cp_AppointmentID :: nat
  cp_Items :: "PrescriptionItem list"
  cp_Notes :: string
  cp_CreatedByDoctorID :: nat

record UpdatePrescriptionRequest =
  up_PrescriptionID :: nat
  up_DoctorID :: nat
  up_Items :: "PrescriptionItem list"
  up_Notes :: string

definition prescription_FindByID :: "db \<Rightarrow> nat \<Rightarrow> Prescription option" where
  "prescription_FindByID d i = find (\<lambda>p. presc_id p = i) (prescriptions d)"

definition prescription_FindByAppointmentID :: "db \<Rightarrow> nat \<Rightarrow> Prescription list" where
  "prescription_FindByAppointmentID d appointmentID =
     rev (filter (\<lambda>p. presc_AppointmentID p = appointmentID) (prescriptions d))"

definition prescription_Create :: "db \<Rightarrow> Prescription \<Rightarrow> Prescription \<times> db" where
  "prescription_Create d p =
     (let p' = p\<lparr>presc_id := fresh_id (map presc_id (prescriptions d))\<rparr> in
      (p', d\<lparr>prescriptions := prescriptions d @ [p']\<rparr>))"

definition prescription_Update :: "db \<Rightarrow> Prescription \<Rightarrow> db" where
  "prescription_Update d p =
     d\<lparr>prescriptions := map (\<lambda>q. if presc_id q = presc_id p then p else q) (prescriptions d)\<rparr>"

definition prescription_Delete :: "db \<Rightarrow> nat \<Rightarrow> db" where
  "prescription_Delete d i = d\<lparr>prescriptions := filter (\<lambda>p. presc_id p \<noteq> i) (prescriptions d)\<rparr>"

definition CreatePrescription ::
  "env \<Rightarrow> db \<Rightarrow> CreatePrescriptionRequest \<Rightarrow> (error + Prescription) \<times> db" where
  "CreatePrescription ev d req =
     (case appointment_FindByID d (cp_AppointmentID req) of
        None \<Rightarrow> (Inl (Err ''appointment not found''), d)
      | Some a \<Rightarrow>
     if doctor_id a \<noteq> cp_CreatedByDoctorID req
       then (Inl (Err ''unauthorized to create prescription for this appointment''), d) else
     (case user_FindByID d (cp_CreatedByDoctorID req) of
        None \<Rightarrow> (Inl (Err ''doctor not found''), d)
      | Some doctor \<Rightarrow>
     if role doctor \<noteq> ''doctor'' then (Inl (Err ''doctor not found''), d) else
     (case env_Marshal ev (cp_Items req) of
        None \<Rightarrow> (Inl (Err ''invalid prescription items format''), d)
      | Some itemsJSON \<Rightarrow>
     (case prescription_Create d
             \<lparr>presc_id = 0, presc_AppointmentID = cp_AppointmentID req,
              presc_ItemsJSON = itemsJSON, presc_Notes = cp_Notes req,
              presc_CreatedByDoctorID = cp_CreatedByDoctorID req\<rparr> of
        (p, d') \<Rightarrow> (Inr p, d')))))"

definition GetPrescriptions :: "db \<Rightarrow> nat \<Rightarrow> nat \<Rightarrow> error + Prescription list" where
  "GetPrescriptions d appointmentID userID =
     (case appointment_FindByID d appointmentID of
        None \<Rightarrow> Inl (Err ''appointment not found'')
      | Some a \<Rightarrow>
     if patient_id a \<noteq> userID \<and> doctor_id a \<noteq> userID
       then Inl (Err ''unauthorized to view prescriptions for this appointment'')
       else Inr (prescription_FindByAppointmentID d appointmentID))"

definition GetPrescriptionDetails :: "db \<Rightarrow> nat \<Rightarrow> nat \<Rightarrow> error + Prescription" where
  "GetPrescriptionDetails d prescriptionID userID =
     (case prescription_FindByID d prescriptionID of
        None \<Rightarrow> Inl (Err ''prescription not found'')
      | Some p \<Rightarrow>
     (case appointment_FindByID d (presc_AppointmentID p) of
        None \<Rightarrow> Inl (Err ''appointment not found'')
      | Some a \<Rightarrow>
     if patient_id a \<noteq> userID \<and> doctor_id a \<noteq> userID
       then Inl (Err ''unauthorized to view this prescription'')
       else Inr p))"

definition UpdatePrescription ::
  "env \<Rightarrow> db \<Rightarrow> UpdatePrescriptionRequest \<Rightarrow> (error + Prescription) \<times> db" where
  "UpdatePrescription ev d req =
     (case prescription_FindByID d (up_PrescriptionID req) of
        None \<Rightarrow> (Inl (Err ''prescription not found''), d)
      | Some p \<Rightarrow>
     (case appointment_FindByID d (presc_AppointmentID p) of
        None \<Rightarrow> (Inl (Err ''appointment not found''), d)
      | Some a \<Rightarrow>
     if doctor_id a \<noteq> up_DoctorID req
       then (Inl (Err ''unauthorized to update this prescription''), d) else
     (case env_Marshal ev (up_Items req) of
        None \<Rightarrow> (Inl (Err ''invalid prescription items format''), d)
      | Some itemsJSON \<Rightarrow>
          (let p' = p\<lparr>presc_ItemsJSON := itemsJSON, presc_Notes := up_Notes req\<rparr> in
           (Inr p', prescription_Update d p')))))"

definition DeletePrescription :: "db \<Rightarrow> nat \<Rightarrow> nat \<Rightarrow> (error + unit) \<times> db" where
  "DeletePrescription d prescriptionID userID =
     (case prescription_FindByID d prescriptionID of
        None \<Rightarrow> (Inl (Err ''prescription not found''), d)
      | Some p \<Rightarrow>
     (case appointment_FindByID d (presc_AppointmentID p) of
        None \<Rightarrow> (Inl (Err ''appointment not found''), d)
      | Some a \<Rightarrow>
     if doctor_id a \<noteq> userID
       then (Inl (Err ''unauthorized to delete this prescription''), d)
       else (Inr (), prescription_Delete d prescriptionID)))"

text \<open>\<open>GetPrescriptionItems\<close>: \<open>json.Unmarshal\<close> of the stored text; the decoder is the
  parameter \<open>unmarshal\<close>.\<close>

definition GetPrescriptionItems ::
  "(string \<Rightarrow> error + PrescriptionItem list) \<Rightarrow> Prescription \<Rightarrow> error + PrescriptionItem list" where
  "GetPrescriptionItems unmarshal prescription = unmarshal (presc_ItemsJSON prescription)"

section \<open>The operations on the sub-resources of an appointment, as one type\<close>

text \<open>
  Every operation of \<open>ChatService\<close>, \<open>PrescriptionService\<close> and \<open>VideoService\<close> that is
  given an acting user, with the arguments the service receives. (\<open>GetVideoSession\<close> of
  \<open>VideoService\<close> is given a session key only, and no user.)
\<close>

datatype op =
    OpSendMessage SendMessageRequest
  | OpGetMessages nat nat nat nat
  | OpUploadAttachment nat nat
  | OpMarkMessagesAsRead nat nat
  | OpGetUnreadCount nat nat
  | OpCreatePrescription CreatePrescriptionRequest
  | OpGetPrescriptions nat nat
  | OpGetPrescriptionDetails nat nat
  | OpUpdatePrescription UpdatePrescriptionRequest
  | OpDeletePrescription nat nat
  | OpCreateVideoSession CreateVideoSessionRequest nat
  | OpValidateSessionAccess nat nat
  | OpStartVideoSession nat nat
  | OpEndVideoSession nat nat
  | OpGetVideoSessionsByAppointment nat nat
  | OpGetSignalingInfo nat nat
  | OpGetWebRTCOffer nat nat
  | OpSetWebRTCAnswer nat nat string

datatype reply =
    RUnit
  | RText string
  | RCount nat
  | RMessage Message
  | RMessages "Message list"
  | RPrescription Prescription
  | RPrescriptions "Prescription list"
  | RSession VideoSession
  | RSessions "VideoSession list"
  | RSignaling SignalingInfo

definition reading :: "('a \<Rightarrow> reply) \<Rightarrow> db \<Rightarrow> error + 'a \<Rightarrow> (error + reply) \<times> db" where
  "reading f d r = (case r of Inl e \<Rightarrow> (Inl e, d) | Inr x \<Rightarrow> (Inr (f x), d))"

definition writing :: "('a \<Rightarrow> reply) \<Rightarrow> (error + 'a) \<times> db \<Rightarrow> (error + reply) \<times> db" where
  "writing f rd = (case rd of (Inl e, d') \<Rightarrow> (Inl e, d') | (Inr x, d') \<Rightarrow> (Inr (f x), d'))"

fun run_op :: "env \<Rightarrow> db \<Rightarrow> op \<Rightarrow> (error + reply) \<times> db" where
  "run_op ev d (OpSendMessage req) = writing RMessage (SendMessage d req)"
| "run_op ev d (OpGetMessages a u l off) = reading RMessages d (GetMessages d a u l off)"
| "run_op ev d (OpUploadAttachment a u) = reading RText d (UploadAttachment ev d a u)"
| "run_op ev d (OpMarkMessagesAsRead a u) = writing (\<lambda>_. RUnit) (MarkMessagesAsRead ev d a u)"
| "run_op ev d (OpGetUnreadCount a u) = reading RCount d (GetUnreadCount d a u)"
| "run_op ev d (OpCreatePrescription req) = writing RPrescription (CreatePrescription ev d req)"
| "run_op ev d (OpGetPrescriptions a u) = reading RPrescriptions d (GetPrescriptions d a u)"
| "run_op ev d (OpGetPrescriptionDetails p u) =
     reading RPrescription d (GetPrescriptionDetails d p u)"
| "run_op ev d (OpUpdatePrescription req) = writing RPrescription (UpdatePrescription ev d req)"
| "run_op ev d (OpDeletePrescription p u) = writing (\<lambda>_. RUnit) (DeletePrescription d p u)"
| "run_op ev d (OpCreateVideoSession req u) = writing RSession (CreateVideoSession ev d req u)"
| "run_op ev d (OpValidateSessionAccess s u) = reading (\<lambda>_. RUnit) d (ValidateSessionAccess d s u)"
| "run_op ev d (OpStartVideoSession s u) = writing (\<lambda>_. RUnit) (StartVideoSession ev d s u)"
| "run_op ev d (OpEndVideoSession s u) = writing (\<lambda>_. RUnit) (EndVideoSession ev d s u)"
| "run_op ev d (OpGetVideoSessionsByAppointment a u) =
     reading RSessions d (GetVideoSessionsByAppointment d a u)"
| "run_op ev d (OpGetSignalingInfo s u) = reading RSignaling d (GetSignalingInfo ev d s u)"
| "run_op ev d (OpGetWebRTCOffer s u) = reading RText d (GetWebRTCOffer d s u)"
| "run_op ev d (OpSetWebRTCAnswer s u answer) =
     reading (\<lambda>_. RUnit) d (SetWebRTCAnswer d s u answer)"

text \<open>The acting user of an operation.\<close>

fun op_actor :: "op \<Rightarrow> nat" where
  "op_actor (OpSendMessage req) = sm_SenderUserID req"
| "op_actor (OpGetMessages a u l off) = u"
| "op_actor (OpUploadAttachment a u) = u"
| "op_actor (OpMarkMessagesAsRead a u) = u"
| "op_actor (OpGetUnreadCount a u) = u"
| "op_actor (OpCreatePrescription req) = cp_CreatedByDoctorID req"
| "op_actor (OpGetPrescriptions a u) = u"
| "op_actor (OpGetPrescriptionDetails p u) = u"
| "op_actor (OpUpdatePrescription req) = up_DoctorID req"
| "op_actor (OpDeletePrescription p u) = u"
| "op_actor (OpCreateVideoSession req u) = u"
| "op_actor (OpValidateSessionAccess s u) = u"
| "op_actor (OpStartVideoSession s u) = u"
| "op_actor (OpEndVideoSession s u) = u"
| "op_actor (OpGetVideoSessionsByAppointment a u) = u"
| "op_actor (OpGetSignalingInfo s u) = u"
| "op_actor (OpGetWebRTCOffer s u) = u"
| "op_actor (OpSetWebRTCAnswer s u answer) = u"

text \<open>The appointment an operation is about: the one it names, or the one that the
  prescription or the video session it names belongs to.\<close>

definition of_prescription :: "db \<Rightarrow> nat \<Rightarrow> nat option" where
  "of_prescription d p = map_option presc_AppointmentID (prescription_FindByID d p)"

definition of_session :: "db \<Rightarrow> nat \<Rightarrow> nat option" where
  "of_session d s = map_option vs_AppointmentID (videoSession_FindByID d s)"

fun op_appointment :: "db \<Rightarrow> op \<Rightarrow> nat option" where
  "op_appointment d (OpSendMessage req) = Some (sm_AppointmentID req)"
| "op_appointment d (OpGetMessages a u l off) = Some a"
| "op_appointment d (OpUploadAttachment a u) = Some a"
| "op_appointment d (OpMarkMessagesAsRead a u) = Some a"
| "op_appointment d (OpGetUnreadCount a u) = Some a"
| "op_appointment d (OpCreatePrescription req) = Some (cp_AppointmentID req)"
| "op_appointment d (OpGetPrescriptions a u) = Some a"
| "op_appointment d (OpGetPrescriptionDetails p u) = of_prescription d p"
| "op_appointment d (OpUpdatePrescription req) = of_prescription d (up_PrescriptionID req)"
| "op_appointment d (OpDeletePrescription p u) = of_prescription d p"
| "op_appointment d (OpCreateVideoSession req u) = Some (cvs_AppointmentID req)"
| "op_appointment d (OpValidateSessionAccess s u) = of_session d s"
| "op_appointment d (OpStartVideoSession s u) = of_session d s"
| "op_appointment d (OpEndVideoSession s u) = of_session d s"
| "op_appointment d (OpGetVideoSessionsByAppointment a u) = Some a"
| "op_appointment d (OpGetSignalingInfo s u) = of_session d s"
| "op_appointment d (OpGetWebRTCOffer s u) = of_session d s"
| "op_appointment d (OpSetWebRTCAnswer s u answer) = of_session d s"

text \<open>The errors that refuse an actor: their messages all begin with \<open>unauthorized\<close>.\<close>

definition refused :: "error + 'a \<Rightarrow> bool" where
  "refused r = (case r of Inl (Err m) \<Rightarrow> take 12 m = ''unauthorized'' | _ \<Rightarrow> False)"

section \<open>The transition table of the specification\<close>

text \<open>
  The table as the specification words it: pending to confirmed by the doctor; pending
  to cancelled and confirmed to cancelled by the patient or the doctor; confirmed to
  completed by the doctor. It is used only to say which requests the table excludes.
\<close>

datatype actor = ThePatient | TheDoctor | Stranger

fun spec_table_allows :: "status \<Rightarrow> status \<Rightarrow> actor \<Rightarrow> bool" where
  "spec_table_allows Pending Confirmed TheDoctor = True"
| "spec_table_allows Pending Cancelled ThePatient = True"
| "spec_table_allows Pending Cancelled TheDoctor = True"
| "spec_table_allows Confirmed Cancelled ThePatient = True"
| "spec_table_allows Confirmed Cancelled TheDoctor = True"
| "spec_table_allows Confirmed Completed TheDoctor = True"
| "spec_table_allows _ _ _ = False"

definition actor_of :: "appointment \<Rightarrow> nat \<Rightarrow> actor" where
  "actor_of a userID =
     (if userID = doctor_id a then TheDoctor
      else if userID = patient_id a then ThePatient else Stranger)"

section \<open>Properties of stores\<close>

text \<open>The primary key of \<open>appointments\<close>.\<close>

definition appointment_keys_distinct :: "db \<Rightarrow> bool" where
  "appointment_keys_distinct d = distinct (map (\<lambda>r. app_id (entity r)) (appointments d))"

text \<open>The unique index holds in a store: no row is in conflict with another one.\<close>

definition slot_index_holds :: "db \<Rightarrow> bool" where
  "slot_index_holds d =
     list_all (\<lambda>r. \<not> uniq_slot_confirmed_violated (appointments d) (entity r)) (appointments d)"

text \<open>Two appointments that the unique index does not let stand together, unless they
  are one row: both pending or confirmed, on the same slot.\<close>

definition same_slot :: "appointment \<Rightarrow> appointment \<Rightarrow> bool" where
  "same_slot x y = (active (status x) \<and> active (status y) \<and> slot_id x \<noteq> None
                    \<and> slot_id y = slot_id x)"

text \<open>The columns of an appointment row other than \<open>status\<close> and \<open>notes\<close>.\<close>

definition other_columns ::
  "appointment_row \<Rightarrow> nat \<times> nat \<times> nat \<times> nat option \<times> instant option \<times> instant option" where
  "other_columns r =
     (app_id (entity r), patient_id (entity r), doctor_id (entity r), slot_id (entity r),
      start_time r, end_time r)"

section \<open>A small clinic\<close>

text \<open>Patient 1, doctor 2, patient 3, and nothing else in the store.\<close>

definition clinic :: db where
  "clinic =
     \<lparr>users = [\<lparr>user_id = 1, role = ''patient''\<rparr>, \<lparr>user_id = 2, role = ''doctor''\<rparr>,
               \<lparr>user_id = 3, role = ''patient''\<rparr>],
      appointments = [], slots = [], messages = [], video_sessions = [], prescriptions = []\<rparr>"

text \<open>A booking of doctor 2 by a patient, from 100 to 200, asked at or before 50.\<close>

definition booking :: "nat \<Rightarrow> nat option \<Rightarrow> instant \<Rightarrow> instant \<Rightarrow> CreateAppointmentRequest" where
  "booking p s t1 t2 =
     \<lparr>req_PatientID = p, req_DoctorID = 2, req_SlotID = s, req_Notes = ''first visit'',
      req_StartTime = t1, req_EndTime = t2\<rparr>"

definition booked :: "nat \<Rightarrow> nat \<Rightarrow> nat option \<Rightarrow> status \<Rightarrow> appointment" where
  "booked i p s st =
     \<lparr>app_id = i, patient_id = p, doctor_id = 2, slot_id = s, status = st,
      app_notes = ''first visit''\<rparr>"

definition row :: "appointment \<Rightarrow> appointment_row" where
  "row a = \<lparr>entity = a, start_time = None, end_time = None\<rparr>"

text \<open>A slot of doctor 2, as a row of \<open>availability_slots\<close>.\<close>

definition slot7 :: AvailabilitySlot where
  "slot7 = \<lparr>slot_key = 7, slot_DoctorID = 2, slot_StartTime = 100, slot_EndTime = 200,
            slot_Status = ''open'', slot_Appointment = None\<rparr>"

text \<open>A video session of appointment 1.\<close>

definition session :: "nat \<Rightarrow> instant option \<Rightarrow> instant option \<Rightarrow> VideoSession" where
  "session i s e =
     \<lparr>vs_id = i, vs_AppointmentID = 1, vs_RoomID = ''00ff'', vs_StartedAt = s, vs_EndedAt = e\<rparr>"

text \<open>
  Two item lists, and \<open>json.Marshal\<close> and \<open>json.Unmarshal\<close> at these two lists and their
  texts (elsewhere the tables fail).
\<close>

definition amoxicillin :: "PrescriptionItem list" where
  "amoxicillin =
     [\<lparr>MedicationName = ''Amoxicillin'', Dosage = ''500mg'', Frequency = ''3x/day'',
       Duration = ''7 days'', Instructions = []\<rparr>]"

definition ibuprofen :: "PrescriptionItem list" where
  "ibuprofen =
     [\<lparr>MedicationName = ''Ibuprofen'', Dosage = ''200mg'', Frequency = ''2x/day'',
       Duration = ''3 days'', Instructions = ''after meals''\<rparr>,
      \<lparr>MedicationName = ''Loratadine'', Dosage = ''10mg'', Frequency = ''1x/day'',
       Duration = ''5 days'', Instructions = []\<rparr>]"

definition amoxicillin_json :: string where
  \<open>amoxicillin_json = ''[{"medication_name":"Amoxicillin","dosage":"500mg","frequency":"3x/day","duration":"7 days","instructions":""}]''\<close>

definition ibuprofen_json :: string where
  \<open>ibuprofen_json = ''[{"medication_name":"Ibuprofen","dosage":"200mg","frequency":"2x/day","duration":"3 days","instructions":"after meals"},{"medication_name":"Loratadine","dosage":"10mg","frequency":"1x/day","duration":"5 days","instructions":""}]''\<close>

definition marshal_table :: "PrescriptionItem list \<Rightarrow> string option" where
  "marshal_table items =
     (if items = amoxicillin then Some amoxicillin_json
      else if items = ibuprofen then Some ibuprofen_json else None)"

definition unmarshal_table :: "string \<Rightarrow> error + PrescriptionItem list" where
  "unmarshal_table text =
     (if text = amoxicillin_json then Inr amoxicillin
      else if text = ibuprofen_json then Inr ibuprofen
      else Inl (Err ''invalid character''))"

text \<open>The surroundings of the example calls.\<close>

definition desk :: env where
  "desk =
     \<lparr>env_now = 60, env_hour = 3600, env_generateRoomID = Inr ''00ff'',
      env_generateRoomToken = (\<lambda>roomID userID. Inr ''00ff_token''),
      env_storeFile = Inr ''/uploads/1_60_scan.png'',
      env_Marshal = marshal_table\<rparr>"

text \<open>The clinic with appointment 1 (patient 1, doctor 2, pending) and the given video
  sessions and prescriptions.\<close>

definition ward :: "VideoSession list \<Rightarrow> Prescription list \<Rightarrow> db" where
  "ward vs ps =
     clinic\<lparr>appointments := [row (booked 1 1 None Pending)], video_sessions := vs,
            prescriptions := ps\<rparr>"

definition script :: "string \<Rightarrow> Prescription" where
  "script text =
     \<lparr>presc_id = 1, presc_AppointmentID = 1, presc_ItemsJSON = text,
      presc_Notes = ''take with water'', presc_CreatedByDoctorID = 2\<rparr>"

section \<open>Auxiliary facts\<close>

lemmas appointment_defs =
  CreateAppointment_def UpdateAppointmentStatus_def CancelAppointment_def
  user_FindByID_def appointment_FindByID_def FindByDoctorAndTimeRange_def
  time_range_matches_def appointment_Create_def appointment_Update_def
  uniq_slot_confirmed_violated_def fresh_id_def active_def Let_def

lemmas clinic_defs = clinic_def booking_def booked_def row_def

lemma fresh_id_greater: "i \<in> set ids \<Longrightarrow> i < fresh_id ids"
  by (induction ids) (auto simp: fresh_id_def)





lemma find_Some_mem: "find P xs = Some x \<Longrightarrow> x \<in> set xs \<and> P x"
  by (induction xs) (auto split: if_splits)

lemma find_key_unique:
  "distinct (map f xs) \<Longrightarrow> find (\<lambda>x. f x = i) xs = Some x \<Longrightarrow> y \<in> set xs \<Longrightarrow> f y = i \<Longrightarrow> y = x"
  by (induction xs) (auto split: if_splits simp: rev_image_eqI)

lemma find_after_rewrite:
  "find (\<lambda>x. f x = i) xs = Some x \<Longrightarrow> f (g x) = i \<Longrightarrow>
   find (\<lambda>x. f x = i) (map (\<lambda>y. if f y = i then g y else y) xs) = Some (g x)"
  by (induction xs) (auto split: if_splits)

section \<open>Booking\<close>





text \<open>
  The same in general: in a store whose rows all have NULL time columns, which is what
  every write of the ORM leaves, no request is ever refused as already booked.
\<close>

lemma CreateAppointment_never_booked:
  assumes "\<forall>r\<in>set (appointments d). start_time r = None"
  shows "fst (CreateAppointment now d req) \<noteq> Inl (Err ''time slot is already booked'')"
proof -
  have "FindByDoctorAndTimeRange d doc s e = []" for doc s e
    using assms by (auto simp: FindByDoctorAndTimeRange_def time_range_matches_def filter_empty_conv)
  then show ?thesis
    by (simp add: CreateAppointment_def appointment_Create_def Let_def
          split: option.splits sum.splits)
qed


text \<open>The other three checks of C7 do refuse, and write nothing.\<close>

lemma CreateAppointment_validation:
  "(user_FindByID d (req_DoctorID req) = None \<or>
    (\<exists>u. user_FindByID d (req_DoctorID req) = Some u \<and> role u \<noteq> ''doctor'') \<longrightarrow>
      CreateAppointment now d req = (Inl (Err ''doctor not found''), d))
   \<and> (user_FindByID d (req_DoctorID req) = Some doctor \<and> role doctor = ''doctor'' \<and>
      (user_FindByID d (req_PatientID req) = None \<or>
       (\<exists>u. user_FindByID d (req_PatientID req) = Some u \<and> role u \<noteq> ''patient'')) \<longrightarrow>
      CreateAppointment now d req = (Inl (Err ''patient not found''), d))
   \<and> (user_FindByID d (req_DoctorID req) = Some doctor \<and> role doctor = ''doctor'' \<and>
      user_FindByID d (req_PatientID req) = Some patient \<and> role patient = ''patient'' \<and>
      req_StartTime req < now \<longrightarrow>
      CreateAppointment now d req = (Inl (Err ''start time cannot be in the past''), d))
   \<and> (user_FindByID d (req_DoctorID req) = Some doctor \<and> role doctor = ''doctor'' \<and>
      user_FindByID d (req_PatientID req) = Some patient \<and> role patient = ''patient'' \<and>
      now \<le> req_StartTime req \<and> req_EndTime req < req_StartTime req \<longrightarrow>
      CreateAppointment now d req = (Inl (Err ''end time must be after start time''), d))"
  by (auto simp: CreateAppointment_def split: option.splits)

text \<open>
  C9. Whenever \<open>CreateAppointment\<close> succeeds, the appointment it returns and writes
  consists of the next key, the patient, the doctor, the optional slot and the notes of
  the request, and status pending; the row's time columns are NULL. The requested
  start and end are not in it: the same request with any other start and end, if it
  succeeds, returns the same appointment and leaves the same store.
\<close>

theorem CreateAppointment_drops_time_range:
  assumes "CreateAppointment now d req = (Inr a, d')"
  shows "a = \<lparr>app_id = fresh_id (map (\<lambda>r. app_id (entity r)) (appointments d)),
               patient_id = req_PatientID req, doctor_id = req_DoctorID req,
               slot_id = req_SlotID req, status = Pending, app_notes = req_Notes req\<rparr>
       \<and> d' = d\<lparr>appointments := appointments d @ [\<lparr>entity = a, start_time = None, end_time = None\<rparr>]\<rparr>
       \<and> (\<forall>now2 s e a2 d2.
            CreateAppointment now2 d (req\<lparr>req_StartTime := s, req_EndTime := e\<rparr>) = (Inr a2, d2)
            \<longrightarrow> a2 = a \<and> d2 = d')"
  using assms
  by (auto simp: CreateAppointment_def appointment_Create_def Let_def
           split: option.splits if_splits)

theorem CreateAppointment_drops_time_range_witness:
  "CreateAppointment 50 clinic (booking 1 None 100 200) =
     (Inr (booked 1 1 None Pending), clinic\<lparr>appointments := [row (booked 1 1 None Pending)]\<rparr>)
   \<and> CreateAppointment 60 clinic (booking 1 None 300 400) =
     (Inr (booked 1 1 None Pending), clinic\<lparr>appointments := [row (booked 1 1 None Pending)]\<rparr>)
   \<and> start_time (row (booked 1 1 None Pending)) = None
   \<and> end_time (row (booked 1 1 None Pending)) = None"
proof -
  have first: "CreateAppointment 50 clinic (booking 1 None 100 200) =
     (Inr (booked 1 1 None Pending), clinic\<lparr>appointments := [row (booked 1 1 None Pending)]\<rparr>)"
    by (simp add: appointment_defs clinic_defs)
  have "\<exists>a2 d2. CreateAppointment 60 clinic
          ((booking 1 None 100 200)\<lparr>req_StartTime := 300, req_EndTime := 400\<rparr>) = (Inr a2, d2)"
    by (simp add: appointment_defs clinic_defs)
  then obtain a2 d2 where second: "CreateAppointment 60 clinic
          ((booking 1 None 100 200)\<lparr>req_StartTime := 300, req_EndTime := 400\<rparr>) = (Inr a2, d2)"
    by blast
  have "a2 = booked 1 1 None Pending \<and> d2 = clinic\<lparr>appointments := [row (booked 1 1 None Pending)]\<rparr>"
    using CreateAppointment_drops_time_range [OF first] second by blast
  moreover have "(booking 1 None 100 200)\<lparr>req_StartTime := 300, req_EndTime := 400\<rparr>
      = booking 1 None 300 400"
    by (simp add: booking_def)
  ultimately show ?thesis
    using first second by (simp add: row_def)
qed


section \<open>Status changes\<close>

lemma stored_appointment:
  assumes "appointment_FindByID d i = Some a"
  obtains r where "r \<in> set (appointments d)" and "entity r = a" and "app_id a = i"
    and "find (\<lambda>r. app_id (entity r) = i) (appointments d) = Some r"
proof -
  obtain r where r: "find (\<lambda>r. app_id (entity r) = i) (appointments d) = Some r" "entity r = a"
    using assms unfolding appointment_FindByID_def by blast
  have "r \<in> set (appointments d) \<and> app_id (entity r) = i"
    using r(1) by (rule find_Some_mem)
  with r show ?thesis by (intro that [of r]) simp_all
qed

lemma rewrite_keeps_other_columns:
  assumes "appointment_keys_distinct d" and "appointment_FindByID d i = Some a"
    and "app_id a' = app_id a" and "patient_id a' = patient_id a"
    and "doctor_id a' = doctor_id a" and "slot_id a' = slot_id a"
  shows "map other_columns
           (map (\<lambda>r. if app_id (entity r) = app_id a' then r\<lparr>entity := a'\<rparr> else r) (appointments d))
         = map other_columns (appointments d)"
proof -
  obtain r0 where r0: "entity r0 = a" "app_id a = i"
      "find (\<lambda>r. app_id (entity r) = i) (appointments d) = Some r0"
    using assms(2) by (rule stored_appointment)
  have "other_columns (r\<lparr>entity := a'\<rparr>) = other_columns r"
    if "r \<in> set (appointments d)" and "app_id (entity r) = app_id a'" for r
  proof -
    have "r = r0"
      using find_key_unique [of "\<lambda>r. app_id (entity r)" "appointments d" i r0 r]
        assms(1,3) r0 that by (simp add: appointment_keys_distinct_def)
    then show ?thesis using r0 assms(3-6) by (simp add: other_columns_def)
  qed
  then show ?thesis by (simp add: comp_def)
qed

lemma rewrite_keeps_notes:
  assumes "appointment_keys_distinct d" and "appointment_FindByID d i = Some a"
    and "app_id a' = app_id a" and "app_notes a' = app_notes a"
  shows "map (\<lambda>r. app_notes (entity r))
           (map (\<lambda>r. if app_id (entity r) = app_id a' then r\<lparr>entity := a'\<rparr> else r) (appointments d))
         = map (\<lambda>r. app_notes (entity r)) (appointments d)"
proof -
  obtain r0 where r0: "entity r0 = a" "app_id a = i"
      "find (\<lambda>r. app_id (entity r) = i) (appointments d) = Some r0"
    using assms(2) by (rule stored_appointment)
  have "app_notes a' = app_notes (entity r)"
    if "r \<in> set (appointments d)" and "app_id (entity r) = app_id a'" for r
  proof -
    have "r = r0"
      using find_key_unique [of "\<lambda>r. app_id (entity r)" "appointments d" i r0 r]
        assms(1,3) r0 that by (simp add: appointment_keys_distinct_def)
    then show ?thesis using r0 assms(4) by simp
  qed
  then show ?thesis by (simp add: comp_def)
qed

lemma FindByID_after_Update:
  assumes "appointment_FindByID d i = Some a" and "app_id a' = app_id a"
  shows "appointment_FindByID
           (d\<lparr>appointments :=
                map (\<lambda>r. if app_id (entity r) = app_id a' then r\<lparr>entity := a'\<rparr> else r)
                  (appointments d)\<rparr>) i = Some a'"
proof -
  obtain r0 where r0: "entity r0 = a" "app_id a = i"
      "find (\<lambda>r. app_id (entity r) = i) (appointments d) = Some r0"
    using assms(1) by (rule stored_appointment)
  have "find (\<lambda>r. app_id (entity r) = i)
          (map (\<lambda>r. if app_id (entity r) = i then r\<lparr>entity := a'\<rparr> else r) (appointments d))
        = Some (r0\<lparr>entity := a'\<rparr>)"
    using r0 assms(2)
    by (intro find_after_rewrite [of "\<lambda>r. app_id (entity r)" i "appointments d" r0 "\<lambda>r. r\<lparr>entity := a'\<rparr>"]) simp_all
  then show ?thesis using r0 assms(2) by (simp add: appointment_FindByID_def)
qed

text \<open>
  C10. In a store whose appointment keys are distinct, \<open>UpdateAppointmentStatus\<close> leaves
  every column other than \<open>status\<close> and \<open>notes\<close> of every appointment as it was, and
  every other table; when the \<open>Notes\<close> of the request are empty it leaves all notes
  as they were. When it succeeds, the stored appointment is the old one with the
  requested status, and with the requested notes only if they are not empty.
\<close>

theorem UpdateAppointmentStatus_frame:
  assumes "appointment_keys_distinct d" and "UpdateAppointmentStatus d req = (res, d')"
  shows "map other_columns (appointments d') = map other_columns (appointments d)
    \<and> (upd_Notes req = [] \<longrightarrow>
         map (\<lambda>r. app_notes (entity r)) (appointments d')
           = map (\<lambda>r. app_notes (entity r)) (appointments d))
    \<and> (\<forall>a'. res = Inr a' \<longrightarrow>
         (\<exists>a. appointment_FindByID d (upd_AppointmentID req) = Some a
            \<and> a' = a\<lparr>status := upd_Status req,
                      app_notes := (if upd_Notes req = [] then app_notes a else upd_Notes req)\<rparr>
            \<and> appointment_FindByID d' (upd_AppointmentID req) = Some a'))
    \<and> users d' = users d \<and> slots d' = slots d \<and> messages d' = messages d
    \<and> video_sessions d' = video_sessions d \<and> prescriptions d' = prescriptions d"
proof (cases "appointment_FindByID d (upd_AppointmentID req)")
  case None
  then show ?thesis using assms(2) by (auto simp: UpdateAppointmentStatus_def)
next
  case (Some a)
  define a' where "a' = a\<lparr>status := upd_Status req,
      app_notes := (if upd_Notes req \<noteq> [] then upd_Notes req else app_notes a)\<rparr>"
  define d2 where "d2 = d\<lparr>appointments :=
      map (\<lambda>r. if app_id (entity r) = app_id a' then r\<lparr>entity := a'\<rparr> else r) (appointments d)\<rparr>"
  have same: "app_id a' = app_id a" "patient_id a' = patient_id a"
      "doctor_id a' = doctor_id a" "slot_id a' = slot_id a"
    by (simp_all add: a'_def)
  have cols: "map other_columns (appointments d2) = map other_columns (appointments d)"
    using rewrite_keeps_other_columns [OF assms(1) Some same] by (simp add: d2_def)
  have nts: "upd_Notes req = [] \<Longrightarrow>
      map (\<lambda>r. app_notes (entity r)) (appointments d2) = map (\<lambda>r. app_notes (entity r)) (appointments d)"
    using rewrite_keeps_notes [OF assms(1) Some same(1)] by (simp add: d2_def a'_def)
  have stored: "appointment_FindByID d2 (upd_AppointmentID req) = Some a'"
    using FindByID_after_Update [OF Some same(1)] by (simp add: d2_def)
  have rest: "users d2 = users d" "slots d2 = slots d" "messages d2 = messages d"
      "video_sessions d2 = video_sessions d" "prescriptions d2 = prescriptions d"
    by (simp_all add: d2_def)
  have "UpdateAppointmentStatus d req =
      (if doctor_id a \<noteq> upd_DoctorID req
         then (Inl (Err ''unauthorized to update this appointment''), d)
       else if uniq_slot_confirmed_violated (appointments d) a'
         then (Inl (UniqueViolation ''uniq_slot_confirmed''), d)
       else (Inr a', d2))"
    unfolding a'_def d2_def
    by (simp add: UpdateAppointmentStatus_def appointment_Update_def Some Let_def)
  then consider "res = Inl (Err ''unauthorized to update this appointment'')" "d' = d"
    | "res = Inl (UniqueViolation ''uniq_slot_confirmed'')" "d' = d"
    | "res = Inr a'" "d' = d2"
    using assms(2) by (auto split: if_splits)
  then show ?thesis
  proof cases
    case 1
    then show ?thesis by simp
  next
    case 2
    then show ?thesis by simp
  next
    case 3
    have "a' = a\<lparr>status := upd_Status req,
        app_notes := (if upd_Notes req = [] then app_notes a else upd_Notes req)\<rparr>"
      by (simp add: a'_def)
    then show ?thesis
      using 3 cols nts stored rest Some by simp
  qed
qed

text \<open>
  At the store with one pending appointment (key 1, patient 1, doctor 2): the doctor
  confirms it with empty notes, and the notes stay \<open>first visit\<close>.
\<close>

theorem UpdateAppointmentStatus_frame_witness:
  "appointment_keys_distinct (clinic\<lparr>appointments := [row (booked 1 1 None Pending)]\<rparr>)
   \<and> UpdateAppointmentStatus (clinic\<lparr>appointments := [row (booked 1 1 None Pending)]\<rparr>)
        \<lparr>upd_AppointmentID = 1, upd_DoctorID = 2, upd_Status = Confirmed, upd_Notes = []\<rparr>
      = (Inr (booked 1 1 None Confirmed),
         clinic\<lparr>appointments := [row (booked 1 1 None Confirmed)]\<rparr>)
   \<and> map other_columns [row (booked 1 1 None Confirmed)]
      = map other_columns [row (booked 1 1 None Pending)]
   \<and> app_notes (booked 1 1 None Confirmed) = app_notes (booked 1 1 None Pending)"
proof -
  let ?d = "clinic\<lparr>appointments := [row (booked 1 1 None Pending)]\<rparr>"
  let ?req = "\<lparr>upd_AppointmentID = 1, upd_DoctorID = 2, upd_Status = Confirmed, upd_Notes = []\<rparr>"
  have keys: "appointment_keys_distinct ?d"
    by (simp add: appointment_keys_distinct_def)
  have run: "UpdateAppointmentStatus ?d ?req
      = (Inr (booked 1 1 None Confirmed), clinic\<lparr>appointments := [row (booked 1 1 None Confirmed)]\<rparr>)"
    by (simp add: appointment_defs clinic_defs)
  show ?thesis
    using UpdateAppointmentStatus_frame [OF keys run] keys run
    by (simp add: clinic_defs)
qed


text \<open>Booking keeps the appointment keys distinct, and so do the status operations.\<close>

lemma CreateAppointment_keys:
  "map (\<lambda>r. app_id (entity r)) (appointments (snd (CreateAppointment now d req)))
     = map (\<lambda>r. app_id (entity r)) (appointments d)
   \<or> map (\<lambda>r. app_id (entity r)) (appointments (snd (CreateAppointment now d req)))
     = map (\<lambda>r. app_id (entity r)) (appointments d)
         @ [fresh_id (map (\<lambda>r. app_id (entity r)) (appointments d))]"
  by (simp add: CreateAppointment_def appointment_Create_def Let_def
        split: option.split sum.split)

lemma CreateAppointment_keeps_keys:
  assumes "appointment_keys_distinct d"
  shows "appointment_keys_distinct (snd (CreateAppointment now d req))"
proof -
  have "fresh_id (map (\<lambda>r. app_id (entity r)) (appointments d))
      \<notin> set (map (\<lambda>r. app_id (entity r)) (appointments d))"
    using fresh_id_greater [of _ "map (\<lambda>r. app_id (entity r)) (appointments d)"] by blast
  then show ?thesis
    using assms CreateAppointment_keys [of now d req]
    unfolding appointment_keys_distinct_def by auto
qed

lemma rewrite_keeps_keys:
  "k = app_id a \<Longrightarrow>
   map (\<lambda>r. app_id (entity r)) (map (\<lambda>r. if app_id (entity r) = k then r\<lparr>entity := a\<rparr> else r) rows)
   = map (\<lambda>r. app_id (entity r)) rows"
  by (induction rows) auto

lemma appointment_Update_keys:
  "appointment_Update d a = Inr d' \<Longrightarrow>
   map (\<lambda>r. app_id (entity r)) (appointments d') = map (\<lambda>r. app_id (entity r)) (appointments d)"
  unfolding appointment_Update_def using rewrite_keeps_keys [of "app_id a" a "appointments d"]
  by (auto split: if_splits)

lemma UpdateAppointmentStatus_keys:
  "map (\<lambda>r. app_id (entity r)) (appointments (snd (UpdateAppointmentStatus d req)))
     = map (\<lambda>r. app_id (entity r)) (appointments d)"
  by (simp add: UpdateAppointmentStatus_def Let_def appointment_Update_keys
        split: option.split sum.split)

lemma CancelAppointment_keys:
  "map (\<lambda>r. app_id (entity r)) (appointments (snd (CancelAppointment d i u)))
     = map (\<lambda>r. app_id (entity r)) (appointments d)"
  by (simp add: CancelAppointment_def appointment_Update_keys
        split: option.split sum.split)

lemma status_operations_keep_keys:
  assumes "appointment_keys_distinct d"
  shows "appointment_keys_distinct (snd (UpdateAppointmentStatus d req))"
    and "appointment_keys_distinct (snd (CancelAppointment d i u))"
  using assms
  by (simp_all add: appointment_keys_distinct_def UpdateAppointmentStatus_keys CancelAppointment_keys)

text \<open>The unique index is kept by every write of an appointment that is let through.\<close>

lemma uniq_slot_confirmed_violated_iff:
  "uniq_slot_confirmed_violated rows a =
   (active (status a) \<and> slot_id a \<noteq> None \<and>
    (\<exists>r\<in>set rows. app_id (entity r) \<noteq> app_id a \<and> slot_id (entity r) = slot_id a
        \<and> active (status (entity r))))"
  by (cases "slot_id a") (auto simp: uniq_slot_confirmed_violated_def list_ex_iff)

lemma slot_index_holds_iff:
  "slot_index_holds d =
   (\<forall>r\<in>set (appointments d). \<forall>r'\<in>set (appointments d).
      same_slot (entity r) (entity r') \<longrightarrow> app_id (entity r') = app_id (entity r))"
  unfolding slot_index_holds_def list_all_iff uniq_slot_confirmed_violated_iff same_slot_def
  by blast

lemma not_violated_same_slot:
  assumes "\<not> uniq_slot_confirmed_violated rows a" and "r \<in> set rows"
    and "same_slot a (entity r) \<or> same_slot (entity r) a"
  shows "app_id (entity r) = app_id a"
  using assms unfolding uniq_slot_confirmed_violated_iff same_slot_def by auto

lemma appointment_Create_keeps_index:
  assumes "slot_index_holds d" and "appointment_Create d a = Inr (a', d')"
  shows "slot_index_holds d'"
proof -
  let ?new = "\<lparr>entity = a', start_time = None, end_time = None\<rparr>"
  have ok: "\<not> uniq_slot_confirmed_violated (appointments d) a'"
    and d': "appointments d' = appointments d @ [?new]"
    using assms(2) by (auto simp: appointment_Create_def Let_def split: if_splits)
  have old: "app_id (entity r') = app_id (entity r)"
    if "r \<in> set (appointments d)" "r' \<in> set (appointments d)" "same_slot (entity r) (entity r')"
    for r r'
    using assms(1) that unfolding slot_index_holds_iff by blast
  have "app_id (entity r') = app_id (entity r)"
    if r: "r \<in> set (appointments d')" and r': "r' \<in> set (appointments d')"
      and s: "same_slot (entity r) (entity r')" for r r'
  proof -
    consider "r \<in> set (appointments d)" "r' \<in> set (appointments d)"
      | "r = ?new" "r' = ?new"
      | "r = ?new" "r' \<in> set (appointments d)"
      | "r \<in> set (appointments d)" "r' = ?new"
      using r r' d' by auto
    then show ?thesis
    proof cases
      case 1
      then show ?thesis using old s by blast
    next
      case 2
      then show ?thesis by simp
    next
      case 3
      then show ?thesis using not_violated_same_slot [OF ok, of r'] s by simp
    next
      case 4
      then show ?thesis using not_violated_same_slot [OF ok, of r] s by simp
    qed
  qed
  then show ?thesis unfolding slot_index_holds_iff by blast
qed

lemma appointment_Update_keeps_index:
  assumes "slot_index_holds d" and "appointment_Update d a = Inr d'"
  shows "slot_index_holds d'"
proof -
  let ?f = "\<lambda>r. if app_id (entity r) = app_id a then r\<lparr>entity := a\<rparr> else r"
  have ok: "\<not> uniq_slot_confirmed_violated (appointments d) a"
    and d': "appointments d' = map ?f (appointments d)"
    using assms(2) by (auto simp: appointment_Update_def split: if_splits)
  have old: "app_id (entity r') = app_id (entity r)"
    if "r \<in> set (appointments d)" "r' \<in> set (appointments d)" "same_slot (entity r) (entity r')"
    for r r'
    using assms(1) that unfolding slot_index_holds_iff by blast
  have step: "app_id (entity (?f q')) = app_id (entity (?f q))"
    if q: "q \<in> set (appointments d)" and q': "q' \<in> set (appointments d)"
      and s: "same_slot (entity (?f q)) (entity (?f q'))" for q q'
  proof (cases "app_id (entity q) = app_id a")
    case True
    show ?thesis
    proof (cases "app_id (entity q') = app_id a")
      case True
      with \<open>app_id (entity q) = app_id a\<close> show ?thesis by simp
    next
      case False
      then have "same_slot a (entity q')" using s True by simp
      then have "app_id (entity q') = app_id a"
        using not_violated_same_slot [OF ok q'] by simp
      with False show ?thesis by simp
    qed
  next
    case False
    show ?thesis
    proof (cases "app_id (entity q') = app_id a")
      case True
      then have "same_slot (entity q) a" using s False by simp
      then have "app_id (entity q) = app_id a"
        using not_violated_same_slot [OF ok q] by simp
      with False show ?thesis by simp
    next
      case other: False
      then show ?thesis using old [OF q q'] s False by simp
    qed
  qed
  have "app_id (entity r') = app_id (entity r)"
    if r: "r \<in> set (appointments d')" and r': "r' \<in> set (appointments d')"
      and s: "same_slot (entity r) (entity r')" for r r'
  proof -
    obtain q q' where "q \<in> set (appointments d)" "r = ?f q" "q' \<in> set (appointments d)" "r' = ?f q'"
      using r r' unfolding d' by auto
    then show ?thesis using step [of q q'] s by simp
  qed
  then show ?thesis unfolding slot_index_holds_iff by blast
qed

lemma operations_keep_index:
  assumes "slot_index_holds d"
  shows "slot_index_holds (snd (CreateAppointment now d req))"
    and "slot_index_holds (snd (UpdateAppointmentStatus d upd))"
    and "slot_index_holds (snd (CancelAppointment d i u))"
proof -
  show "slot_index_holds (snd (CreateAppointment now d req))"
    using assms appointment_Create_keeps_index [OF assms]
    by (simp add: CreateAppointment_def split: option.split sum.split prod.split)
  show "slot_index_holds (snd (UpdateAppointmentStatus d upd))"
    using assms appointment_Update_keeps_index [OF assms]
    by (simp add: UpdateAppointmentStatus_def Let_def split: option.split sum.split)
  show "slot_index_holds (snd (CancelAppointment d i u))"
    using assms appointment_Update_keeps_index [OF assms]
    by (simp add: CancelAppointment_def split: option.split sum.split)
qed

lemma clinic_is_consistent: "appointment_keys_distinct clinic \<and> slot_index_holds clinic"
  by (simp add: appointment_keys_distinct_def slot_index_holds_def clinic_def)

lemma no_violation_from_active:
  assumes "slot_index_holds d" and "appointment_FindByID d i = Some a" and "active (status a)"
    and "app_id a' = app_id a" and "slot_id a' = slot_id a"
  shows "\<not> uniq_slot_confirmed_violated (appointments d) a'"
proof -
  obtain r where r: "r \<in> set (appointments d)" "entity r = a"
    using assms(2) by (rule stored_appointment)
  have "\<not> uniq_slot_confirmed_violated (appointments d) a"
    using assms(1) r by (auto simp: slot_index_holds_def list_all_iff)
  then show ?thesis
    using assms(3-5) by (simp add: uniq_slot_confirmed_violated_def split: option.splits)
qed

text \<open>
  C3 (as amended). For an appointment in the store: \<open>UpdateAppointmentStatus\<close> by
  anyone but the appointment's doctor, and \<open>CancelAppointment\<close> by anyone but its
  patient or doctor, fail as unauthorized and leave the store as it was;
  \<open>CancelAppointment\<close> of a completed or cancelled appointment fails and leaves the
  store as it was; the patient or the doctor cancels a pending or confirmed
  appointment; and from pending or confirmed the appointment's doctor sets whichever
  status the request names (there is no transition table), in a store in which the
  unique index holds.
\<close>

theorem status_change_rules:
  assumes "appointment_FindByID d i = Some a"
  shows "(upd_AppointmentID req = i \<and> upd_DoctorID req \<noteq> doctor_id a \<longrightarrow>
            UpdateAppointmentStatus d req
              = (Inl (Err ''unauthorized to update this appointment''), d))
    \<and> (u \<noteq> patient_id a \<and> u \<noteq> doctor_id a \<longrightarrow>
            CancelAppointment d i u = (Inl (Err ''unauthorized to cancel this appointment''), d))
    \<and> ((u = patient_id a \<or> u = doctor_id a) \<and> (status a = Completed \<or> status a = Cancelled) \<longrightarrow>
            CancelAppointment d i u = (Inl (Err ''appointment cannot be cancelled''), d))
    \<and> ((u = patient_id a \<or> u = doctor_id a) \<and> active (status a) \<longrightarrow>
            (\<exists>d'. CancelAppointment d i u = (Inr (), d')
                \<and> appointment_FindByID d' i = Some (a\<lparr>status := Cancelled\<rparr>)))
    \<and> (upd_AppointmentID req = i \<and> upd_DoctorID req = doctor_id a \<and> active (status a)
          \<and> slot_index_holds d \<longrightarrow>
            (\<exists>d'. UpdateAppointmentStatus d req
                   = (Inr (a\<lparr>status := upd_Status req,
                             app_notes := (if upd_Notes req \<noteq> [] then upd_Notes req
                                           else app_notes a)\<rparr>), d')
                \<and> appointment_FindByID d' i
                   = Some (a\<lparr>status := upd_Status req,
                             app_notes := (if upd_Notes req \<noteq> [] then upd_Notes req
                                           else app_notes a)\<rparr>)))"
proof (intro conjI impI)
  assume "upd_AppointmentID req = i \<and> upd_DoctorID req \<noteq> doctor_id a"
  then show "UpdateAppointmentStatus d req
      = (Inl (Err ''unauthorized to update this appointment''), d)"
    using assms by (auto simp: UpdateAppointmentStatus_def)
next
  assume "u \<noteq> patient_id a \<and> u \<noteq> doctor_id a"
  then show "CancelAppointment d i u = (Inl (Err ''unauthorized to cancel this appointment''), d)"
    using assms by (simp add: CancelAppointment_def)
next
  assume "(u = patient_id a \<or> u = doctor_id a) \<and> (status a = Completed \<or> status a = Cancelled)"
  then show "CancelAppointment d i u = (Inl (Err ''appointment cannot be cancelled''), d)"
    using assms by (auto simp: CancelAppointment_def)
next
  assume h: "(u = patient_id a \<or> u = doctor_id a) \<and> active (status a)"
  let ?a' = "a\<lparr>status := Cancelled\<rparr>"
  let ?d' = "d\<lparr>appointments :=
      map (\<lambda>r. if app_id (entity r) = app_id ?a' then r\<lparr>entity := ?a'\<rparr> else r) (appointments d)\<rparr>"
  have "\<not> uniq_slot_confirmed_violated (appointments d) ?a'"
    by (simp add: uniq_slot_confirmed_violated_def active_def)
  then have "CancelAppointment d i u = (Inr (), ?d')"
    using assms h by (auto simp: CancelAppointment_def appointment_Update_def active_def)
  moreover have "appointment_FindByID ?d' i = Some ?a'"
    by (rule FindByID_after_Update [OF assms]) simp
  ultimately show "\<exists>d'. CancelAppointment d i u = (Inr (), d')
      \<and> appointment_FindByID d' i = Some ?a'"
    by blast
next
  assume h: "upd_AppointmentID req = i \<and> upd_DoctorID req = doctor_id a \<and> active (status a)
      \<and> slot_index_holds d"
  let ?a' = "a\<lparr>status := upd_Status req,
      app_notes := (if upd_Notes req \<noteq> [] then upd_Notes req else app_notes a)\<rparr>"
  let ?d' = "d\<lparr>appointments :=
      map (\<lambda>r. if app_id (entity r) = app_id ?a' then r\<lparr>entity := ?a'\<rparr> else r) (appointments d)\<rparr>"
  have "\<not> uniq_slot_confirmed_violated (appointments d) ?a'"
    using h assms by (intro no_violation_from_active [of d i a]) simp_all
  then have "UpdateAppointmentStatus d req = (Inr ?a', ?d')"
    using assms h by (simp add: UpdateAppointmentStatus_def appointment_Update_def Let_def)
  moreover have "appointment_FindByID ?d' i = Some ?a'"
    by (rule FindByID_after_Update [OF assms]) simp
  ultimately show "\<exists>d'. UpdateAppointmentStatus d req = (Inr ?a', d')
      \<and> appointment_FindByID d' i = Some ?a'"
    by blast
qed

text \<open>
  The rules at the store with one pending appointment (key 1, patient 1, doctor 2) and,
  for the third, at the store where that appointment is completed.
\<close>

theorem status_change_rules_witness:
  "UpdateAppointmentStatus (clinic\<lparr>appointments := [row (booked 1 1 None Pending)]\<rparr>)
       \<lparr>upd_AppointmentID = 1, upd_DoctorID = 1, upd_Status = Confirmed, upd_Notes = []\<rparr>
     = (Inl (Err ''unauthorized to update this appointment''),
        clinic\<lparr>appointments := [row (booked 1 1 None Pending)]\<rparr>)
   \<and> CancelAppointment (clinic\<lparr>appointments := [row (booked 1 1 None Pending)]\<rparr>) 1 3
     = (Inl (Err ''unauthorized to cancel this appointment''),
        clinic\<lparr>appointments := [row (booked 1 1 None Pending)]\<rparr>)
   \<and> CancelAppointment (clinic\<lparr>appointments := [row (booked 1 1 None Completed)]\<rparr>) 1 2
     = (Inl (Err ''appointment cannot be cancelled''),
        clinic\<lparr>appointments := [row (booked 1 1 None Completed)]\<rparr>)
   \<and> CancelAppointment (clinic\<lparr>appointments := [row (booked 1 1 None Pending)]\<rparr>) 1 1
     = (Inr (), clinic\<lparr>appointments := [row (booked 1 1 None Cancelled)]\<rparr>)
   \<and> slot_index_holds (clinic\<lparr>appointments := [row (booked 1 1 None Pending)]\<rparr>)
   \<and> UpdateAppointmentStatus (clinic\<lparr>appointments := [row (booked 1 1 None Pending)]\<rparr>)
       \<lparr>upd_AppointmentID = 1, upd_DoctorID = 2, upd_Status = Confirmed, upd_Notes = []\<rparr>
     = (Inr (booked 1 1 None Confirmed),
        clinic\<lparr>appointments := [row (booked 1 1 None Confirmed)]\<rparr>)"
proof -
  let ?d1 = "clinic\<lparr>appointments := [row (booked 1 1 None Pending)]\<rparr>"
  let ?d2 = "clinic\<lparr>appointments := [row (booked 1 1 None Completed)]\<rparr>"
  have f1: "appointment_FindByID ?d1 1 = Some (booked 1 1 None Pending)"
    by (simp add: appointment_FindByID_def clinic_defs)
  have f2: "appointment_FindByID ?d2 1 = Some (booked 1 1 None Completed)"
    by (simp add: appointment_FindByID_def clinic_defs)
  have ix: "slot_index_holds ?d1"
    by (simp add: slot_index_holds_def uniq_slot_confirmed_violated_def clinic_defs)
  note r1 = status_change_rules [OF f1,
      of "\<lparr>upd_AppointmentID = 1, upd_DoctorID = 1, upd_Status = Confirmed, upd_Notes = []\<rparr>" 3]
  note r2 = status_change_rules [OF f2,
      of "\<lparr>upd_AppointmentID = 1, upd_DoctorID = 1, upd_Status = Confirmed, upd_Notes = []\<rparr>" 2]
  note r3 = status_change_rules [OF f1,
      of "\<lparr>upd_AppointmentID = 1, upd_DoctorID = 2, upd_Status = Confirmed, upd_Notes = []\<rparr>" 1]
  have a: "UpdateAppointmentStatus ?d1
       \<lparr>upd_AppointmentID = 1, upd_DoctorID = 1, upd_Status = Confirmed, upd_Notes = []\<rparr>
     = (Inl (Err ''unauthorized to update this appointment''), ?d1)"
    using r1 by (simp add: booked_def)
  have b: "CancelAppointment ?d1 1 3 = (Inl (Err ''unauthorized to cancel this appointment''), ?d1)"
    using r1 by (simp add: booked_def)
  have c: "CancelAppointment ?d2 1 2 = (Inl (Err ''appointment cannot be cancelled''), ?d2)"
    using r2 by (simp add: booked_def)
  have d: "CancelAppointment ?d1 1 1
     = (Inr (), clinic\<lparr>appointments := [row (booked 1 1 None Cancelled)]\<rparr>)"
    by (simp add: appointment_defs clinic_defs)
  have e: "UpdateAppointmentStatus ?d1
       \<lparr>upd_AppointmentID = 1, upd_DoctorID = 2, upd_Status = Confirmed, upd_Notes = []\<rparr>
     = (Inr (booked 1 1 None Confirmed), clinic\<lparr>appointments := [row (booked 1 1 None Confirmed)]\<rparr>)"
    by (simp add: appointment_defs clinic_defs)
  show ?thesis using a b c d e ix r3 by simp
qed

text \<open>
  C3 as stated fails. Pending to completed by the doctor is not in the table of the
  specification, and \<open>UpdateAppointmentStatus\<close> performs it.
\<close>

theorem UpdateAppointmentStatus_outside_table:
  "appointment_FindByID (clinic\<lparr>appointments := [row (booked 1 1 None Pending)]\<rparr>) 1
     = Some (booked 1 1 None Pending)
   \<and> actor_of (booked 1 1 None Pending) 2 = TheDoctor
   \<and> \<not> spec_table_allows Pending Completed TheDoctor
   \<and> UpdateAppointmentStatus (clinic\<lparr>appointments := [row (booked 1 1 None Pending)]\<rparr>)
       \<lparr>upd_AppointmentID = 1, upd_DoctorID = 2, upd_Status = Completed, upd_Notes = []\<rparr>
     = (Inr (booked 1 1 None Completed),
        clinic\<lparr>appointments := [row (booked 1 1 None Completed)]\<rparr>)"
  by (simp add: appointment_defs clinic_defs actor_of_def)

section \<open>Slots\<close>

text \<open>
  C6. \<open>DeleteSlot\<close> tests the relation field of the slot that \<open>FindByID\<close> returned, and
  \<open>FindByID\<close> never loads it. Slot 7 of doctor 2 has a pending appointment attached;
  the doctor deletes the slot.
\<close>

theorem DeleteSlot_with_appointment:
  "DeleteSlot (clinic\<lparr>appointments := [row (booked 1 1 (Some 7) Pending)], slots := [slot7]\<rparr>) 7 2
     = (Inr (), clinic\<lparr>appointments := [row (booked 1 1 (Some 7) Pending)], slots := []\<rparr>)"
  by (simp add: DeleteSlot_def slot_FindByID_def slot_Delete_def slot7_def clinic_defs)

text \<open>In general the refusal is unreachable, whatever the store holds.\<close>

lemma DeleteSlot_never_refuses_for_appointment:
  "fst (DeleteSlot d slotID doctorID) \<noteq> Inl (Err ''cannot delete slot with existing appointment'')"
  by (simp add: DeleteSlot_def slot_FindByID_def split: option.split)

lemma DeleteSlot_by_owner:
  assumes "find (\<lambda>s. slot_key s = slotID) (slots d) = Some s" and "slot_DoctorID s = doctorID"
  shows "DeleteSlot d slotID doctorID = (Inr (), slot_Delete d slotID)"
  using assms by (simp add: DeleteSlot_def slot_FindByID_def)

section \<open>Video sessions\<close>

lemma FindActiveByAppointment_found:
  "(case FindActiveByAppointment d i of
      None \<Rightarrow> False
    | Some existingSession \<Rightarrow>
        vs_StartedAt existingSession \<noteq> None \<and> vs_EndedAt existingSession = None)
   = (\<exists>v\<in>set (video_sessions d).
        vs_AppointmentID v = i \<and> vs_StartedAt v \<noteq> None \<and> vs_EndedAt v = None)"
proof -
  let ?P = "\<lambda>v. vs_AppointmentID v = i \<and> vs_StartedAt v \<noteq> None \<and> vs_EndedAt v = None"
  show ?thesis
  proof (cases "rev (filter ?P (video_sessions d))")
    case Nil
    then have "filter ?P (video_sessions d) = []" by simp
    then have "\<not> (\<exists>v\<in>set (video_sessions d). ?P v)"
      unfolding filter_empty_conv by blast
    with Nil show ?thesis by (simp add: FindActiveByAppointment_def)
  next
    case (Cons v vs)
    then have "v \<in> set (rev (filter ?P (video_sessions d)))" by simp
    then have "v \<in> set (video_sessions d)" and "?P v" by simp_all
    with Cons show ?thesis by (auto simp: FindActiveByAppointment_def)
  qed
qed

text \<open>
  C5 (as amended). When a patient or doctor of an existing appointment calls
  \<open>CreateVideoSession\<close> (and a room key can be generated), the call fails with
  \<open>active video session already exists for this appointment\<close>, creating nothing, if and
  only if the appointment has a session that has been started and not ended; otherwise
  it creates one session, not yet started.
\<close>

theorem CreateVideoSession_conflict_iff_live:
  assumes "appointment_FindByID d (cvs_AppointmentID req) = Some a"
    and "userID = patient_id a \<or> userID = doctor_id a"
    and "env_generateRoomID ev = Inr roomID"
  shows "CreateVideoSession ev d req userID =
    (if \<exists>v\<in>set (video_sessions d).
          vs_AppointmentID v = cvs_AppointmentID req \<and> vs_StartedAt v \<noteq> None \<and> vs_EndedAt v = None
     then (Inl (Err ''active video session already exists for this appointment''), d)
     else (Inr \<lparr>vs_id = fresh_id (map vs_id (video_sessions d)),
                vs_AppointmentID = cvs_AppointmentID req, vs_RoomID = roomID,
                vs_StartedAt = None, vs_EndedAt = None\<rparr>,
           d\<lparr>video_sessions := video_sessions d @
               [\<lparr>vs_id = fresh_id (map vs_id (video_sessions d)),
                 vs_AppointmentID = cvs_AppointmentID req, vs_RoomID = roomID,
                 vs_StartedAt = None, vs_EndedAt = None\<rparr>]\<rparr>))"
proof -
  have "\<not> (patient_id a \<noteq> userID \<and> doctor_id a \<noteq> userID)"
    using assms(2) by auto
  then show ?thesis
    unfolding CreateVideoSession_def videoSession_Create_def Let_def
    by (simp add: assms(1,3) FindActiveByAppointment_found del: bex_simps)
qed

text \<open>
  The theorem where the first session of appointment 1 was started at 55 and has not
  ended (a second creation is refused), and where it has ended at 58 (a second session
  is created).
\<close>

theorem CreateVideoSession_conflict_iff_live_witness:
  "CreateVideoSession desk (ward [session 1 (Some 55) None] [])
       \<lparr>cvs_AppointmentID = 1, cvs_CreatedByUserID = 1, cvs_RoomName = ''room'',
        cvs_MaxParticipants = 2, cvs_RecordingEnabled = False\<rparr> 1
     = (Inl (Err ''active video session already exists for this appointment''),
        ward [session 1 (Some 55) None] [])
   \<and> CreateVideoSession desk (ward [session 1 (Some 55) (Some 58)] [])
       \<lparr>cvs_AppointmentID = 1, cvs_CreatedByUserID = 1, cvs_RoomName = ''room'',
        cvs_MaxParticipants = 2, cvs_RecordingEnabled = False\<rparr> 1
     = (Inr (session 2 None None),
        ward [session 1 (Some 55) (Some 58), session 2 None None] [])"
proof -
  let ?req = "\<lparr>cvs_AppointmentID = 1, cvs_CreatedByUserID = 1, cvs_RoomName = ''room'',
        cvs_MaxParticipants = 2, cvs_RecordingEnabled = False\<rparr>"
  have a: "appointment_FindByID (ward vs []) (cvs_AppointmentID ?req) = Some (booked 1 1 None Pending)" for vs
    by (simp add: ward_def appointment_FindByID_def clinic_defs)
  have u: "(1::nat) = patient_id (booked 1 1 None Pending) \<or> 1 = doctor_id (booked 1 1 None Pending)"
    by (simp add: booked_def)
  have g: "env_generateRoomID desk = Inr ''00ff''"
    by (simp add: desk_def)
  show ?thesis
    using CreateVideoSession_conflict_iff_live [OF a u g, of "[session 1 (Some 55) None]"]
      CreateVideoSession_conflict_iff_live [OF a u g, of "[session 1 (Some 55) (Some 58)]"]
    by (simp add: ward_def session_def fresh_id_def)
qed

text \<open>
  C5 as stated fails. \<open>CreateVideoSession\<close> is called twice in a row on appointment 1,
  and the first session has not ended (it has not even started): the second call
  creates a second session.
\<close>

theorem CreateVideoSession_twice:
  "CreateVideoSession desk (ward [] [])
       \<lparr>cvs_AppointmentID = 1, cvs_CreatedByUserID = 1, cvs_RoomName = ''room'',
        cvs_MaxParticipants = 2, cvs_RecordingEnabled = False\<rparr> 1
     = (Inr (session 1 None None), ward [session 1 None None] [])
   \<and> CreateVideoSession desk (ward [session 1 None None] [])
       \<lparr>cvs_AppointmentID = 1, cvs_CreatedByUserID = 2, cvs_RoomName = ''room'',
        cvs_MaxParticipants = 2, cvs_RecordingEnabled = False\<rparr> 2
     = (Inr (session 2 None None), ward [session 1 None None, session 2 None None] [])"
  by (simp add: CreateVideoSession_def videoSession_Create_def FindActiveByAppointment_def
        appointment_FindByID_def ward_def session_def desk_def clinic_defs fresh_id_def Let_def)

text \<open>
  \<open>StartVideoSession\<close> makes no such test at all: both sessions can then be started,
  and appointment 1 has two sessions that are started and not ended.
\<close>

lemma StartVideoSession_two_live:
  "StartVideoSession desk (ward [session 1 None None, session 2 None None] []) 1 1
     = (Inr (), ward [session 1 (Some 60) None, session 2 None None] [])
   \<and> StartVideoSession desk (ward [session 1 (Some 60) None, session 2 None None] []) 2 2
     = (Inr (), ward [session 1 (Some 60) None, session 2 (Some 60) None] [])"
  by (simp add: StartVideoSession_def ValidateSessionAccess_def UpdateStartedAt_def
        videoSession_FindByID_def appointment_FindByID_def ward_def session_def desk_def
        clinic_defs)

section \<open>Participants only\<close>

lemma refused_unauthorized [simp]:
  "refused (Inl (Err (CHR ''u'' # CHR ''n'' # CHR ''a'' # CHR ''u'' # CHR ''t'' # CHR ''h'' # CHR ''o''
      # CHR ''r'' # CHR ''i'' # CHR ''z'' # CHR ''e'' # CHR ''d'' # rest)))"
  by (simp add: refused_def)

lemma ValidateSessionAccess_stranger:
  assumes "videoSession_FindByID d s = Some v"
    and "appointment_FindByID d (vs_AppointmentID v) = Some a"
    and "u \<noteq> patient_id a" and "u \<noteq> doctor_id a"
  shows "ValidateSessionAccess d s u = Inl (Err ''unauthorized to access this video session'')"
  using assms by (auto simp: ValidateSessionAccess_def)

text \<open>
  C4 (as amended). Every operation of the chat, prescription and video services that is
  given an acting user, when it is about an appointment in the store (directly, or
  through a stored prescription or video session) and the actor is neither the patient
  nor the doctor of that appointment, returns an error whose message begins with
  \<open>unauthorized\<close>, and leaves the store as it was. \<open>GetVideoSession\<close> of the video
  service is given no actor; the two HTTP handlers that call it call
  \<open>ValidateSessionAccess\<close> next, and answer 403 with that error to such an actor.
\<close>

theorem stranger_is_refused:
  assumes "op_appointment d op = Some i" and "appointment_FindByID d i = Some a"
    and "op_actor op \<noteq> patient_id a" and "op_actor op \<noteq> doctor_id a"
  shows "refused (fst (run_op ev d op)) \<and> snd (run_op ev d op) = d
    \<and> (\<forall>s. of_session d s = Some i \<longrightarrow>
          handler_GetVideoSession d s (op_actor op)
            = (403, Inl (Err ''unauthorized to access this video session''))
        \<and> handler_JoinVideoSession ev d s (op_actor op)
            = (403, Inl (Err ''unauthorized to access this video session'')))"
proof -
  have by_prescription:
    "\<exists>p. prescription_FindByID d k = Some p \<and> presc_AppointmentID p = i" if "of_prescription d k = Some i" for k
    using that by (auto simp: of_prescription_def)
  have by_session:
    "\<exists>v. videoSession_FindByID d k = Some v \<and> vs_AppointmentID v = i" if "of_session d k = Some i" for k
    using that by (auto simp: of_session_def)
  have validate: "ValidateSessionAccess d k (op_actor op)
      = Inl (Err ''unauthorized to access this video session'')" if "of_session d k = Some i" for k
    using by_session [OF that] assms(2-4) by (auto simp: ValidateSessionAccess_stranger)
  have handlers: "handler_GetVideoSession d k (op_actor op)
        = (403, Inl (Err ''unauthorized to access this video session''))
      \<and> handler_JoinVideoSession ev d k (op_actor op)
        = (403, Inl (Err ''unauthorized to access this video session''))"
    if "of_session d k = Some i" for k
    using validate [OF that] by_session [OF that]
    by (auto simp: handler_GetVideoSession_def handler_JoinVideoSession_def GetVideoSession_def)
  have "refused (fst (run_op ev d op)) \<and> snd (run_op ev d op) = d"
  proof (cases op)
    case (OpSendMessage req)
    then show ?thesis using assms by (simp add: SendMessage_def writing_def)
  next
    case (OpGetMessages x1 x2 x3 x4)
    then show ?thesis using assms by (simp add: GetMessages_def reading_def)
  next
    case (OpUploadAttachment x1 x2)
    then show ?thesis using assms by (simp add: UploadAttachment_def reading_def)
  next
    case (OpMarkMessagesAsRead x1 x2)
    then show ?thesis using assms by (simp add: MarkMessagesAsRead_def writing_def)
  next
    case (OpGetUnreadCount x1 x2)
    then show ?thesis using assms by (simp add: GetUnreadCount_def reading_def)
  next
    case (OpCreatePrescription req)
    then show ?thesis using assms by (simp add: CreatePrescription_def writing_def)
  next
    case (OpGetPrescriptions x1 x2)
    then show ?thesis using assms by (simp add: GetPrescriptions_def reading_def)
  next
    case (OpGetPrescriptionDetails k u)
    then show ?thesis using assms by_prescription [of k]
      by (auto simp: GetPrescriptionDetails_def reading_def)
  next
    case (OpUpdatePrescription req)
    then show ?thesis using assms by_prescription [of "up_PrescriptionID req"]
      by (auto simp: UpdatePrescription_def writing_def)
  next
    case (OpDeletePrescription k u)
    then show ?thesis using assms by_prescription [of k]
      by (auto simp: DeletePrescription_def writing_def)
  next
    case (OpCreateVideoSession req u)
    then show ?thesis using assms by (simp add: CreateVideoSession_def writing_def)
  next
    case (OpValidateSessionAccess k u)
    then show ?thesis using validate [of k] assms(1)
      by (simp add: reading_def)
  next
    case (OpStartVideoSession k u)
    then show ?thesis using validate [of k] assms(1)
      by (simp add: StartVideoSession_def writing_def)
  next
    case (OpEndVideoSession k u)
    then show ?thesis using validate [of k] assms(1)
      by (simp add: EndVideoSession_def writing_def)
  next
    case (OpGetVideoSessionsByAppointment x1 x2)
    then show ?thesis using assms by (simp add: GetVideoSessionsByAppointment_def reading_def)
  next
    case (OpGetSignalingInfo k u)
    then show ?thesis using validate [of k] assms(1)
      by (simp add: GetSignalingInfo_def reading_def)
  next
    case (OpGetWebRTCOffer k u)
    then show ?thesis using validate [of k] assms(1)
      by (simp add: GetWebRTCOffer_def reading_def)
  next
    case (OpSetWebRTCAnswer k u answer)
    then show ?thesis using validate [of k] assms(1)
      by (simp add: SetWebRTCAnswer_def reading_def)
  qed
  then show ?thesis using handlers by blast
qed

text \<open>
  User 3 is neither the patient nor the doctor of appointment 1. The theorem for a
  message sent by user 3, and for user 3 asking for access to session 1.
\<close>

theorem stranger_is_refused_witness:
  "run_op desk (ward [session 1 None None] [])
      (OpSendMessage \<lparr>sm_AppointmentID = 1, sm_SenderUserID = 3, sm_Body = ''hello'',
                      sm_AttachmentURL = None\<rparr>)
     = (Inl (Err ''unauthorized to send message to this appointment''),
        ward [session 1 None None] [])
   \<and> run_op desk (ward [session 1 None None] []) (OpValidateSessionAccess 1 3)
     = (Inl (Err ''unauthorized to access this video session''), ward [session 1 None None] [])
   \<and> handler_GetVideoSession (ward [session 1 None None] []) 1 3
     = (403, Inl (Err ''unauthorized to access this video session''))"
proof -
  let ?d = "ward [session 1 None None] []"
  let ?send = "OpSendMessage \<lparr>sm_AppointmentID = 1, sm_SenderUserID = 3, sm_Body = ''hello'',
                      sm_AttachmentURL = None\<rparr>"
  have a: "appointment_FindByID ?d 1 = Some (booked 1 1 None Pending)"
    by (simp add: ward_def appointment_FindByID_def clinic_defs)
  have t1: "op_appointment ?d ?send = Some 1" by simp
  have t2: "op_appointment ?d (OpValidateSessionAccess 1 3) = Some 1"
    by (simp add: of_session_def videoSession_FindByID_def ward_def session_def)
  have p1: "op_actor ?send \<noteq> patient_id (booked 1 1 None Pending)"
    and q1: "op_actor ?send \<noteq> doctor_id (booked 1 1 None Pending)"
    and p2: "op_actor (OpValidateSessionAccess 1 3) \<noteq> patient_id (booked 1 1 None Pending)"
    and q2: "op_actor (OpValidateSessionAccess 1 3) \<noteq> doctor_id (booked 1 1 None Pending)"
    by (simp_all add: booked_def)
  have r1: "refused (fst (run_op desk ?d ?send)) \<and> snd (run_op desk ?d ?send) = ?d"
    using stranger_is_refused [OF t1 a p1 q1, of desk] by simp
  have r2: "refused (fst (run_op desk ?d (OpValidateSessionAccess 1 3)))
      \<and> snd (run_op desk ?d (OpValidateSessionAccess 1 3)) = ?d"
    and e3: "handler_GetVideoSession ?d 1 3 = (403, Inl (Err ''unauthorized to access this video session''))"
    using stranger_is_refused [OF t2 a p2 q2, of desk] t2 by simp_all
  have e1: "fst (run_op desk ?d ?send) = Inl (Err ''unauthorized to send message to this appointment'')"
    by (simp add: SendMessage_def writing_def appointment_FindByID_def ward_def clinic_defs)
  have e2: "fst (run_op desk ?d (OpValidateSessionAccess 1 3))
      = Inl (Err ''unauthorized to access this video session'')"
    by (simp add: ValidateSessionAccess_def reading_def appointment_FindByID_def
          videoSession_FindByID_def ward_def session_def clinic_defs)
  show ?thesis
    using r1 r2 e1 e2 e3 by (metis prod.collapse)
qed

text \<open>
  C4 as stated fails. Session 1 belongs to appointment 1, whose patient is 1 and whose
  doctor is 2. \<open>GetVideoSession\<close> of the video service reads the session and returns it
  to whoever calls: it is given no actor and makes no test.
\<close>

theorem GetVideoSession_without_check:
  "appointment_FindByID (ward [session 1 None None] []) 1 = Some (booked 1 1 None Pending)
   \<and> patient_id (booked 1 1 None Pending) = 1 \<and> doctor_id (booked 1 1 None Pending) = 2
   \<and> GetVideoSession (ward [session 1 None None] []) 1 = Inr (session 1 None None)
   \<and> vs_AppointmentID (session 1 None None) = 1"
  by (simp add: GetVideoSession_def videoSession_FindByID_def appointment_FindByID_def
        ward_def session_def clinic_defs)

section \<open>Prescription items\<close>

lemma find_after_replace:
  "find (\<lambda>x. f x = i) xs = Some x \<Longrightarrow> f y = i \<Longrightarrow>
   find (\<lambda>x. f x = i) (map (\<lambda>q. if f q = i then y else q) xs) = Some y"
  by (induction xs) (auto split: if_splits)

text \<open>
  C8. An update by the appointment's doctor, with a new item list that \<open>json.Marshal\<close>
  encodes to a text from which \<open>json.Unmarshal\<close> gives the list back, succeeds; the
  stored prescription is the old one with the text of the new list and the new notes;
  and reading the items back, from the returned prescription, from the store, or
  through \<open>GetPrescriptionDetails\<close>, gives exactly the new list, whatever the items
  were before.
\<close>

theorem UpdatePrescription_replaces_items:
  assumes "prescription_FindByID d (up_PrescriptionID req) = Some p"
    and "appointment_FindByID d (presc_AppointmentID p) = Some a"
    and "doctor_id a = up_DoctorID req"
    and "env_Marshal ev (up_Items req) = Some text"
    and "unmarshal text = Inr (up_Items req)"
  shows "\<exists>p' d'. UpdatePrescription ev d req = (Inr p', d')
    \<and> p' = p\<lparr>presc_ItemsJSON := text, presc_Notes := up_Notes req\<rparr>
    \<and> prescription_FindByID d' (up_PrescriptionID req) = Some p'
    \<and> GetPrescriptionDetails d' (up_PrescriptionID req) (up_DoctorID req) = Inr p'
    \<and> GetPrescriptionItems unmarshal p' = Inr (up_Items req)"
proof -
  let ?p' = "p\<lparr>presc_ItemsJSON := text, presc_Notes := up_Notes req\<rparr>"
  let ?d' = "prescription_Update d ?p'"
  have key: "presc_id p = up_PrescriptionID req"
    using assms(1) find_Some_mem [of "\<lambda>p. presc_id p = up_PrescriptionID req" "prescriptions d" p]
    by (simp add: prescription_FindByID_def)
  have run: "UpdatePrescription ev d req = (Inr ?p', ?d')"
    using assms(1-4) by (simp add: UpdatePrescription_def Let_def)
  have stored: "prescription_FindByID ?d' (up_PrescriptionID req) = Some ?p'"
    using assms(1) key
      find_after_replace [of presc_id "up_PrescriptionID req" "prescriptions d" p ?p']
    by (simp add: prescription_FindByID_def prescription_Update_def)
  have "appointment_FindByID ?d' (presc_AppointmentID ?p') = Some a"
    using assms(2) by (simp add: appointment_FindByID_def prescription_Update_def)
  then have details: "GetPrescriptionDetails ?d' (up_PrescriptionID req) (up_DoctorID req) = Inr ?p'"
    using stored assms(3) by (simp add: GetPrescriptionDetails_def)
  have items: "GetPrescriptionItems unmarshal ?p' = Inr (up_Items req)"
    using assms(5) by (simp add: GetPrescriptionItems_def)
  show ?thesis using run stored details items by blast
qed

text \<open>
  Prescription 1 of appointment 1 holds the amoxicillin item; doctor 2 updates it with
  the two other items; what is read back is these two items.
\<close>

theorem UpdatePrescription_replaces_items_witness:
  "UpdatePrescription desk (ward [] [script amoxicillin_json])
       \<lparr>up_PrescriptionID = 1, up_DoctorID = 2, up_Items = ibuprofen, up_Notes = ''take with water''\<rparr>
     = (Inr (script ibuprofen_json), ward [] [script ibuprofen_json])
   \<and> GetPrescriptionItems unmarshal_table (script amoxicillin_json) = Inr amoxicillin
   \<and> GetPrescriptionItems unmarshal_table (script ibuprofen_json) = Inr ibuprofen"
proof -
  let ?d = "ward [] [script amoxicillin_json]"
  let ?req = "\<lparr>up_PrescriptionID = 1, up_DoctorID = 2, up_Items = ibuprofen,
      up_Notes = ''take with water''\<rparr>"
  have differ: "ibuprofen \<noteq> amoxicillin" "ibuprofen_json \<noteq> amoxicillin_json"
    by (simp_all add: ibuprofen_def amoxicillin_def ibuprofen_json_def amoxicillin_json_def)
  have p: "prescription_FindByID ?d (up_PrescriptionID ?req) = Some (script amoxicillin_json)"
    by (simp add: prescription_FindByID_def ward_def script_def)
  have a: "appointment_FindByID ?d (presc_AppointmentID (script amoxicillin_json))
      = Some (booked 1 1 None Pending)"
    by (simp add: appointment_FindByID_def ward_def script_def clinic_defs)
  have u: "doctor_id (booked 1 1 None Pending) = up_DoctorID ?req"
    by (simp add: booked_def)
  have m: "env_Marshal desk (up_Items ?req) = Some ibuprofen_json"
    using differ by (simp add: desk_def marshal_table_def)
  have um: "unmarshal_table ibuprofen_json = Inr (up_Items ?req)"
    using differ by (simp add: unmarshal_table_def)
  have "(script amoxicillin_json)\<lparr>presc_ItemsJSON := ibuprofen_json,
      presc_Notes := up_Notes ?req\<rparr> = script ibuprofen_json"
    by (simp add: script_def)
  moreover have "snd (UpdatePrescription desk ?d ?req) = ward [] [script ibuprofen_json]"
    using differ by (simp add: UpdatePrescription_def prescription_Update_def
        prescription_FindByID_def appointment_FindByID_def ward_def script_def clinic_defs
        desk_def marshal_table_def Let_def)
  moreover have "GetPrescriptionItems unmarshal_table (script amoxicillin_json) = Inr amoxicillin"
    by (simp add: GetPrescriptionItems_def unmarshal_table_def script_def)
  ultimately show ?thesis
    using UpdatePrescription_replaces_items [where unmarshal = unmarshal_table, OF p a u m um]
    by auto
qed

end
